theory Spec2Isabelle
  imports Complex_Main
begin

section \<open>JavaScript values as the storage code sees them\<close>

text \<open>
  \<open>StorageService\<close> parses \<open>.fixflow/debts.json\<close> with \<open>JSON.parse\<close> and validates the
  result, and the documents it is given to write, as values of type \<open>any\<close>; so documents
  and entries are modelled as untyped JavaScript values. Besides what JSON can carry
  these are \<open>undefined\<close>, the numbers \<open>NaN\<close> and the two infinities (\<open>JInfinity True\<close> is
  the positive one) and \<open>Date\<close> objects, given by their time value in milliseconds, \<open>None\<close> for
  an invalid date. An object is an association list in property order; a property that
  is absent reads as \<open>undefined\<close>, modelled by \<open>None\<close>, and so does one that is present
  with the value \<open>JUndefined\<close>. Strings are lists of code units; the white-space and
  letter-case tables below cover ASCII.
\<close>

datatype jsvalue =
    JUndefined
  | JNull
  | JBool bool
  | JNum rat
  | JNaN
  | JInfinity bool
  | JStr string
  | JDate "int option"
  | JArr "jsvalue list"
  | JObj "(string \<times> jsvalue) list"

fun get_prop :: "jsvalue \<Rightarrow> string \<Rightarrow> jsvalue option" where
  "get_prop (JObj kvs) k = map_of kvs k"
| "get_prop _ k = None"

fun assign :: "string \<Rightarrow> jsvalue \<Rightarrow> (string \<times> jsvalue) list \<Rightarrow> (string \<times> jsvalue) list" where
  "assign k v [] = [(k, v)]"
| "assign k v (p # ps) = (if fst p = k then (k, v) # ps else p # assign k v ps)"

text \<open>
  \<open>obj.k = v\<close>. On an array or a \<open>Date\<close> the assignment creates a property that
  \<open>JSON.stringify\<close> does not write, so it leaves no trace in what is persisted.
\<close>

fun set_prop :: "string \<Rightarrow> jsvalue \<Rightarrow> jsvalue \<Rightarrow> jsvalue" where
  "set_prop k v (JObj kvs) = JObj (assign k v kvs)"
| "set_prop k v x = x"

fun own_props :: "jsvalue \<Rightarrow> (string \<times> jsvalue) list" where
  "own_props (JObj kvs) = kvs"
| "own_props _ = []"

text \<open>
  Object spread \<open>{ ...a, ...b }\<close>: the properties of \<open>b\<close> are assigned over a copy of \<open>a\<close>.
  The operands are objects: a validated entry, or a parameter typed as one.
\<close>

definition spread :: "(string \<times> jsvalue) list \<Rightarrow> (string \<times> jsvalue) list \<Rightarrow> (string \<times> jsvalue) list" where
  "spread a b = foldl (\<lambda>acc kv. assign (fst kv) (snd kv) acc) a b"

fun truthy :: "jsvalue \<Rightarrow> bool" where
  "truthy JUndefined = False"
| "truthy JNull = False"
| "truthy (JBool b) = b"
| "truthy (JNum r) = (r \<noteq> 0)"
| "truthy JNaN = False"
| "truthy (JInfinity b) = True"
| "truthy (JStr s) = (s \<noteq> [])"
| "truthy (JDate t) = True"
| "truthy (JArr xs) = True"
| "truthy (JObj kvs) = True"

fun typeof :: "jsvalue \<Rightarrow> string" where
  "typeof JUndefined = ''undefined''"
| "typeof JNull = ''object''"
| "typeof (JBool b) = ''boolean''"
| "typeof (JNum r) = ''number''"
| "typeof JNaN = ''number''"
| "typeof (JInfinity b) = ''number''"
| "typeof (JStr s) = ''string''"
| "typeof (JDate t) = ''object''"
| "typeof (JArr xs) = ''object''"
| "typeof (JObj kvs) = ''object''"

definition is_space :: "char \<Rightarrow> bool" where
  "is_space c = (c \<in> set [CHR '' '', CHR 0x09, CHR 0x0A, CHR 0x0B, CHR 0x0C, CHR 0x0D])"

definition trim :: "string \<Rightarrow> string" where
  "trim s = rev (dropWhile is_space (rev (dropWhile is_space s)))"

section \<open>The enumerations and the typed input of createDebt (types/index.ts)\<close>

datatype DebtSeverity = LOW | MEDIUM | HIGH | CRITICAL

datatype DebtCategory =
  CODE_QUALITY | PERFORMANCE | SECURITY | TESTING | DOCUMENTATION | ARCHITECTURE
  | REFACTORING | OTHER

datatype DebtStatus = OPEN | IN_PROGRESS | REVIEW | RESOLVED | CLOSED

datatype DebtPriority = P_LOW | P_NORMAL | P_HIGH | P_URGENT

text \<open>The enumerations are string enums; these are the strings.\<close>

fun severity_value :: "DebtSeverity \<Rightarrow> string" where
  "severity_value LOW = ''low''"
| "severity_value MEDIUM = ''medium''"
| "severity_value HIGH = ''high''"
| "severity_value CRITICAL = ''critical''"

fun category_value :: "DebtCategory \<Rightarrow> string" where
  "category_value CODE_QUALITY = ''code-quality''"
| "category_value PERFORMANCE = ''performance''"
| "category_value SECURITY = ''security''"
| "category_value TESTING = ''testing''"
| "category_value DOCUMENTATION = ''documentation''"
| "category_value ARCHITECTURE = ''architecture''"
| "category_value REFACTORING = ''refactoring''"
| "category_value OTHER = ''other''"

fun status_value :: "DebtStatus \<Rightarrow> string" where
  "status_value OPEN = ''open''"
| "status_value IN_PROGRESS = ''in-progress''"
| "status_value REVIEW = ''review''"
| "status_value RESOLVED = ''resolved''"
| "status_value CLOSED = ''closed''"

fun priority_value :: "DebtPriority \<Rightarrow> string" where
  "priority_value P_LOW = ''low''"
| "priority_value P_NORMAL = ''normal''"
| "priority_value P_HIGH = ''high''"
| "priority_value P_URGENT = ''urgent''"

text \<open>
  \<open>Omit<TechnicalDebt, 'id' | 'createdAt' | 'updatedAt'>\<close>, the parameter type of
  \<open>createDebt\<close>, and the object such a value is at run time. An optional field that is
  not given is an absent property; \<open>dueDate\<close> is the time value of a \<open>Date\<close> and
  \<open>lineNumber\<close> a finite number.
\<close>

record DebtFields =
  debt_title :: string
  debt_description :: string
  debt_filePath :: string
  debt_lineNumber :: rat
  debt_severity :: DebtSeverity
  debt_category :: DebtCategory
  debt_status :: DebtStatus
  debt_priority :: DebtPriority
  debt_dueDate :: "int option"
  debt_tags :: "string list"
  debt_context :: "string option"
  debt_assignee :: "string option"
  debt_estimatedEffort :: "string option"
  debt_notes :: "string option"

fun optional :: "string \<Rightarrow> string option \<Rightarrow> (string \<times> jsvalue) list" where
  "optional k None = []"
| "optional k (Some v) = [(k, JStr v)]"

definition fields_object :: "DebtFields \<Rightarrow> jsvalue" where
  "fields_object f = JObj (
     [(''title'', JStr (debt_title f)),
      (''description'', JStr (debt_description f)),
      (''filePath'', JStr (debt_filePath f)),
      (''lineNumber'', JNum (debt_lineNumber f)),
      (''severity'', JStr (severity_value (debt_severity f))),
      (''category'', JStr (category_value (debt_category f))),
      (''status'', JStr (status_value (debt_status f))),
      (''priority'', JStr (priority_value (debt_priority f)))]
     @ (case debt_dueDate f of None \<Rightarrow> [] | Some ms \<Rightarrow> [(''dueDate'', JDate (Some ms))])
     @ [(''tags'', JArr (map JStr (debt_tags f)))]
     @ optional ''context'' (debt_context f)
     @ optional ''assignee'' (debt_assignee f)
     @ optional ''estimatedEffort'' (debt_estimatedEffort f)
     @ optional ''notes'' (debt_notes f))"

section \<open>Errors\<close>

text \<open>
  Every failure in the source is \<open>new Error(message)\<close>; the constructors follow the
  messages, and a wrapper constructor stands for a prefix such as
  \<open>Failed to read storage data: ...\<close> put before the message of the inner error.
\<close>

datatype error =
    AlreadyLocked
  | LockedByAnotherProcess
  | FailedToAcquireLock error
  | StorageFileNotFound
  | SyntaxError
  | TypeError
  | InvalidDataStructure string
  | MissingRequiredField string
  | InvalidDebtStructure string
  | DebtNotFound string
  | InvalidDebtEntry "string list"
  | InvalidUpdate "string list"
  | InvalidStatusTransition "jsvalue option" DebtStatus
  | CorruptedAndBackedUp
  | CoercionNotModelled
  | FailedToRead error
  | FailedToWrite error
  | FailedToAdd error
  | FailedToUpdate error
  | FailedToDelete error
  | FailedToGet error
  | FailedToGetAll error
  | FailedToInitialize error

section \<open>Structural validation (storage-service.ts)\<close>

definition requiredFields :: "string list" where
  "requiredFields = [''id'', ''title'', ''description'', ''filePath'', ''lineNumber'',
     ''severity'', ''category'', ''status'', ''priority'']"

text \<open>\<open>field in debt\<close>: a \<open>TypeError\<close> unless \<open>debt\<close> is an object; an array or a \<open>Date\<close> has
  none of the required names.\<close>

fun has_field :: "jsvalue \<Rightarrow> string \<Rightarrow> error + bool" where
  "has_field (JObj kvs) f = Inr (f \<in> set (map fst kvs))"
| "has_field (JArr xs) f = Inr False"
| "has_field (JDate t) f = Inr False"
| "has_field _ f = Inl TypeError"

fun check_required :: "jsvalue \<Rightarrow> string list \<Rightarrow> error + unit" where
  "check_required debt [] = Inr ()"
| "check_required debt (f # fs) =
     (case has_field debt f of
        Inl e \<Rightarrow> Inl e
      | Inr False \<Rightarrow> Inl (MissingRequiredField f)
      | Inr True \<Rightarrow> check_required debt fs)"

text \<open>\<open>typeof v !== 'string' || v.trim() === ''\<close>\<close>

fun not_nonempty_string :: "jsvalue option \<Rightarrow> bool" where
  "not_nonempty_string (Some (JStr s)) = (trim s = [])"
| "not_nonempty_string _ = True"

text \<open>\<open>typeof v !== 'number' || v < 1\<close>; no comparison with \<open>NaN\<close> holds.\<close>

fun not_positive_number :: "jsvalue option \<Rightarrow> bool" where
  "not_positive_number (Some (JNum r)) = (r < 1)"
| "not_positive_number (Some JNaN) = False"
| "not_positive_number (Some (JInfinity b)) = (\<not> b)"
| "not_positive_number _ = True"

definition validateDebtStructure :: "jsvalue \<Rightarrow> error + unit" where
  "validateDebtStructure debt =
     (case check_required debt requiredFields of
        Inl e \<Rightarrow> Inl e
      | Inr u \<Rightarrow>
          if not_nonempty_string (get_prop debt ''id'') then
            Inl (InvalidDebtStructure ''id must be a non-empty string'')
          else if not_nonempty_string (get_prop debt ''title'') then
            Inl (InvalidDebtStructure ''title must be a non-empty string'')
          else if not_nonempty_string (get_prop debt ''filePath'') then
            Inl (InvalidDebtStructure ''filePath must be a non-empty string'')
          else if not_positive_number (get_prop debt ''lineNumber'') then
            Inl (InvalidDebtStructure ''lineNumber must be a positive number'')
          else Inr ())"

fun validate_each :: "jsvalue list \<Rightarrow> error + unit" where
  "validate_each [] = Inr ()"
| "validate_each (d # ds) =
     (case validateDebtStructure d of Inl e \<Rightarrow> Inl e | Inr u \<Rightarrow> validate_each ds)"

text \<open>\<open>!v || typeof v !== 'object'\<close>, where \<open>v\<close> may be \<open>undefined\<close>\<close>

fun not_an_object :: "jsvalue option \<Rightarrow> bool" where
  "not_an_object None = True"
| "not_an_object (Some v) = (\<not> truthy v \<or> typeof v \<noteq> ''object'')"

definition validateDataStructure :: "jsvalue \<Rightarrow> error + unit" where
  "validateDataStructure data =
     (if not_an_object (Some data) then
        Inl (InvalidDataStructure ''data must be an object'')
      else case get_prop data ''debts'' of
        Some (JArr debts) \<Rightarrow>
          if not_an_object (get_prop data ''metadata'') then
            Inl (InvalidDataStructure ''metadata must be an object'')
          else if not_an_object (get_prop data ''settings'') then
            Inl (InvalidDataStructure ''settings must be an object'')
          else validate_each debts
      | _ \<Rightarrow> Inl (InvalidDataStructure ''debts must be an array''))"

section \<open>Time, random numbers and text\<close>

definition digit_char :: "nat \<Rightarrow> char" where
  "digit_char d = ''0123456789'' ! (d mod 10)"

fun decimal :: "nat \<Rightarrow> string" where
  "decimal n = (if n < 10 then [digit_char n] else decimal (n div 10) @ [digit_char n])"

declare decimal.simps [simp del]

text \<open>A number in a template literal, for the integers \<open>Date.now()\<close> returns.\<close>

definition show_int :: "int \<Rightarrow> string" where
  "show_int i = (if i < 0 then CHR ''-'' # decimal (nat (- i)) else decimal (nat i))"

definition pad2 :: "int \<Rightarrow> string" where
  "pad2 i = [digit_char (nat i div 10), digit_char (nat i)]"

definition pad3 :: "int \<Rightarrow> string" where
  "pad3 i = [digit_char (nat i div 100), digit_char (nat i div 10), digit_char (nat i)]"

definition pad4 :: "int \<Rightarrow> string" where
  "pad4 i = digit_char (nat i div 1000) # pad3 i"

definition pad6 :: "int \<Rightarrow> string" where
  "pad6 i = [digit_char (nat i div 100000), digit_char (nat i div 10000)] @ pad4 i"

text \<open>The civil date of a day number counted from 1970-01-01 (proleptic Gregorian).\<close>

definition civil_from_days :: "int \<Rightarrow> int \<times> int \<times> int" where
  "civil_from_days days =
     (let z = days + 719468;
          era = z div 146097;
          doe = z - era * 146097;
          yoe = (doe - doe div 1460 + doe div 36524 - doe div 146096) div 365;
          doy = doe - (365 * yoe + yoe div 4 - yoe div 100);
          mp = (5 * doy + 2) div 153;
          d = doy - (153 * mp + 2) div 5 + 1;
          m = (if mp < 10 then mp + 3 else mp - 9);
          y = yoe + era * 400 + (if m \<le> 2 then 1 else 0)
      in (y, m, d))"

text \<open>\<open>new Date(t).toISOString()\<close> for a time value \<open>t\<close> in milliseconds since the epoch.\<close>

definition toISOString :: "int \<Rightarrow> string" where
  "toISOString t =
     (let ms = t mod 86400000;
          ymd = civil_from_days (t div 86400000);
          y = fst ymd;
          year = (if 0 \<le> y \<and> y \<le> 9999 then pad4 y
                  else (if y < 0 then CHR ''-'' else CHR ''+'') # pad6 \<bar>y\<bar>)
      in year @ ''-'' @ pad2 (fst (snd ymd)) @ ''-'' @ pad2 (snd (snd ymd)) @ ''T''
         @ pad2 (ms div 3600000) @ '':'' @ pad2 (ms div 60000 mod 60) @ '':''
         @ pad2 (ms div 1000 mod 60) @ ''.'' @ pad3 (ms mod 1000) @ ''Z'')"

section \<open>The file system and the service instance\<close>

text \<open>
  What \<open>JSON.parse\<close> reads back from the text that \<open>JSON.stringify\<close> writes for a value:
  a \<open>Date\<close> is written as its \<open>toISOString()\<close> and an invalid one as \<open>null\<close>
  (\<open>Date.prototype.toJSON\<close>), \<open>NaN\<close> and the infinities as \<open>null\<close>; a property whose
  value is \<open>undefined\<close> is left out and an array element that is \<open>undefined\<close> is written
  as \<open>null\<close>. For \<open>undefined\<close> itself \<open>JSON.stringify\<close> returns no text.
\<close>

fun array_element :: "jsvalue \<Rightarrow> jsvalue" where
  "array_element JUndefined = JNull"
| "array_element v = v"

definition written_props :: "(string \<times> jsvalue) list \<Rightarrow> (string \<times> jsvalue) list" where
  "written_props kvs = filter (\<lambda>kv. snd kv \<noteq> JUndefined) kvs"

primrec toJSON :: "jsvalue \<Rightarrow> jsvalue" where
  "toJSON JUndefined = JUndefined"
| "toJSON JNull = JNull"
| "toJSON (JBool b) = JBool b"
| "toJSON (JNum r) = JNum r"
| "toJSON JNaN = JNull"
| "toJSON (JInfinity b) = JNull"
| "toJSON (JStr s) = JStr s"
| "toJSON (JDate t) = (case t of None \<Rightarrow> JNull | Some ms \<Rightarrow> JStr (toISOString ms))"
| "toJSON (JArr xs) = JArr (map array_element (map toJSON xs))"
| "toJSON (JObj kvs) = JObj (written_props (map (map_prod id toJSON) kvs))"

text \<open>The values that JSON carries: those a text can parse to.\<close>

primrec is_json :: "jsvalue \<Rightarrow> bool" where
  "is_json JUndefined = False"
| "is_json JNull = True"
| "is_json (JBool b) = True"
| "is_json (JNum r) = True"
| "is_json JNaN = False"
| "is_json (JInfinity b) = False"
| "is_json (JStr s) = True"
| "is_json (JDate t) = False"
| "is_json (JArr xs) = list_all id (map is_json xs)"
| "is_json (JObj kvs) = list_all snd (map (map_prod id is_json) kvs)"

text \<open>
  The text of a file is kept as what \<open>JSON.parse\<close> makes of it: \<open>Stringified v\<close> is a text
  that parses to the value \<open>v\<close>, which is then a value that JSON carries;
  \<open>Unparsable s\<close> is a text \<open>s\<close> that \<open>JSON.parse\<close> rejects with a \<open>SyntaxError\<close>.
  \<open>JSON.stringify\<close> is applied to validated documents only, which are objects.
\<close>

datatype file_text = Stringified jsvalue | Unparsable string

fun JSON_parse :: "file_text \<Rightarrow> error + jsvalue" where
  "JSON_parse (Stringified v) = Inr v"
| "JSON_parse (Unparsable s) = Inl SyntaxError"

definition JSON_stringify :: "jsvalue \<Rightarrow> file_text" where
  "JSON_stringify v = Stringified (toJSON v)"

text \<open>
  \<open>storageFile\<close> and \<open>lockFile\<close> are the two files of the storage directory, \<open>None\<close> when
  absent; of the lock file only its modification time (milliseconds) is ever read.
  \<open>backups\<close> are the files \<open>debts.json.backup.<time>\<close>. \<open>isLocked\<close> is the field of
  the \<open>StorageService\<close> instance. The storage directory is taken to exist: \<open>acquireLock\<close>
  creates the lock file inside it, so without it no operation gets past the lock.
  \<open>clock\<close> lists what the successive readings of the system clock return and \<open>reads\<close>
  counts the readings made; \<open>random\<close> and \<open>draws\<close> do the same for \<open>Math.random()\<close>, given
  as the base-36 digits after \<open>0.\<close> in \<open>Math.random().toString(36)\<close>.
\<close>

record state =
  storageFile :: "file_text option"
  lockFile :: "int option"
  backups :: "(int \<times> file_text) list"
  isLocked :: bool
  clock :: "nat \<Rightarrow> int"
  reads :: nat
  random :: "nat \<Rightarrow> string"
  draws :: nat

definition Date_now :: "state \<Rightarrow> int \<times> state" where
  "Date_now s = (clock s (reads s), s\<lparr>reads := Suc (reads s)\<rparr>)"

definition Math_random :: "state \<Rightarrow> string \<times> state" where
  "Math_random s = (random s (draws s), s\<lparr>draws := Suc (draws s)\<rparr>)"

subsection \<open>The lock\<close>

text \<open>
  The first test throws outside the \<open>try\<close>; the error thrown inside it is caught and
  thrown again behind \<open>Failed to acquire lock:\<close>. The new lock file gets the time of the
  file system, taken here from the clock without counting a reading.
\<close>

definition acquireLock :: "state \<Rightarrow> (error + unit) \<times> state" where
  "acquireLock s =
     (if isLocked s then (Inl AlreadyLocked, s)
      else case lockFile s of
        Some mtime \<Rightarrow>
          (let (now, s1) = Date_now s;
               lockAge = now - mtime
           in if lockAge < 30000 then (Inl (FailedToAcquireLock LockedByAnotherProcess), s1)
              else (Inr (), s1\<lparr>lockFile := Some (clock s1 (reads s1)), isLocked := True\<rparr>))
      | None \<Rightarrow> (Inr (), s\<lparr>lockFile := Some (clock s (reads s)), isLocked := True\<rparr>))"

definition releaseLock :: "state \<Rightarrow> state" where
  "releaseLock s = (if \<not> isLocked s then s else s\<lparr>lockFile := None, isLocked := False\<rparr>)"

subsection \<open>Reading and writing the document\<close>

definition readData :: "state \<Rightarrow> (error + jsvalue) \<times> state" where
  "readData s =
     (let (l, s1) = acquireLock s;
          r = (case l of
                 Inl e \<Rightarrow> Inl (FailedToRead e)
               | Inr u \<Rightarrow>
                   (case storageFile s1 of
                      None \<Rightarrow> Inl (FailedToRead StorageFileNotFound)
                    | Some fileContent \<Rightarrow>
                        (case JSON_parse fileContent of
                           Inl e \<Rightarrow> Inl (FailedToRead e)
                         | Inr data \<Rightarrow>
                             (case validateDataStructure data of
                                Inl e \<Rightarrow> Inl (FailedToRead e)
                              | Inr u \<Rightarrow> Inr data))))
      in (r, releaseLock s1))"

text \<open>
  \<open>data.metadata.lastUpdated = new Date().toISOString();
   data.metadata.totalDebts = data.debts.length\<close>, on a validated document.
\<close>

fun array_length :: "jsvalue option \<Rightarrow> nat" where
  "array_length (Some (JArr xs)) = length xs"
| "array_length _ = 0"

definition stamp :: "int \<Rightarrow> jsvalue \<Rightarrow> jsvalue" where
  "stamp now data =
     (case get_prop data ''metadata'' of
        None \<Rightarrow> data
      | Some m \<Rightarrow>
          set_prop ''metadata''
            (set_prop ''totalDebts'' (JNum (of_nat (array_length (get_prop data ''debts''))))
               (set_prop ''lastUpdated'' (JStr (toISOString now)) m))
            data)"

definition writeData :: "jsvalue \<Rightarrow> state \<Rightarrow> (error + unit) \<times> state" where
  "writeData data s =
     (let (l, s1) = acquireLock s;
          (r, s3) = (case l of
                 Inl e \<Rightarrow> (Inl (FailedToWrite e), s1)
               | Inr u \<Rightarrow>
                   (case validateDataStructure data of
                      Inl e \<Rightarrow> (Inl (FailedToWrite e), s1)
                    | Inr u \<Rightarrow>
                        (let (now, s2) = Date_now s1;
                             jsonContent = JSON_stringify (stamp now data)
                         in (Inr (), s2\<lparr>storageFile := Some jsonContent\<rparr>))))
      in (r, releaseLock s3))"

subsection \<open>Entries\<close>

text \<open>\<open>data.debts\<close> of a validated document\<close>

definition debts_of :: "jsvalue \<Rightarrow> jsvalue list" where
  "debts_of data = (case get_prop data ''debts'' of Some (JArr ds) \<Rightarrow> ds | _ \<Rightarrow> [])"

text \<open>\<open>debt => debt.id === id\<close>\<close>

definition has_id :: "string \<Rightarrow> jsvalue \<Rightarrow> bool" where
  "has_id i debt = (get_prop debt ''id'' = Some (JStr i))"

text \<open>\<open>Array.prototype.findIndex\<close>, with \<open>None\<close> for \<open>-1\<close>\<close>

fun findIndex :: "('a \<Rightarrow> bool) \<Rightarrow> 'a list \<Rightarrow> nat option" where
  "findIndex P [] = None"
| "findIndex P (x # xs) =
     (if P x then Some 0 else (case findIndex P xs of None \<Rightarrow> None | Some i \<Rightarrow> Some (Suc i)))"

text \<open>\<open>data.debts\<close> replaced, by \<open>push\<close>, \<open>splice\<close> or an assignment at an index.\<close>

definition with_debts :: "jsvalue list \<Rightarrow> jsvalue \<Rightarrow> jsvalue" where
  "with_debts ds data = set_prop ''debts'' (JArr ds) data"

text \<open>\<open>{ ...debt, id: ..., createdAt: new Date(), updatedAt: new Date() }\<close>\<close>

definition new_entry :: "jsvalue \<Rightarrow> string \<Rightarrow> int \<Rightarrow> int \<Rightarrow> jsvalue" where
  "new_entry debt newId created updated =
     JObj (spread (own_props debt)
        [(''id'', JStr newId),
         (''createdAt'', JDate (Some created)),
         (''updatedAt'', JDate (Some updated))])"

text \<open>\<open>{ ...data.debts[debtIndex], ...updates, updatedAt: new Date() }\<close>\<close>

definition updated_entry :: "jsvalue \<Rightarrow> jsvalue \<Rightarrow> int \<Rightarrow> jsvalue" where
  "updated_entry old updates now =
     JObj (spread (spread (own_props old) (own_props updates))
        [(''updatedAt'', JDate (Some now))])"

definition generateDebtId :: "state \<Rightarrow> string \<times> state" where
  "generateDebtId s =
     (let (timestamp, s1) = Date_now s;
          (digits, s2) = Math_random s1;
          rnd = take 6 digits
      in (''debt'' @ ''-'' @ show_int timestamp @ ''-'' @ rnd, s2))"

definition addDebt :: "jsvalue \<Rightarrow> state \<Rightarrow> (error + jsvalue) \<times> state" where
  "addDebt debt s =
     (let (r, s1) = readData s
      in case r of
           Inl e \<Rightarrow> (Inl (FailedToAdd e), s1)
         | Inr data \<Rightarrow>
             (let (newId, s2) = generateDebtId s1;
                  (created, s3) = Date_now s2;
                  (updated, s4) = Date_now s3;
                  newDebt = new_entry debt newId created updated;
                  data' = with_debts (debts_of data @ [newDebt]) data;
                  (w, s5) = writeData data' s4
              in case w of
                   Inl e \<Rightarrow> (Inl (FailedToAdd e), s5)
                 | Inr u \<Rightarrow> (Inr newDebt, s5)))"

definition StorageService_updateDebt ::
  "string \<Rightarrow> jsvalue \<Rightarrow> state \<Rightarrow> (error + jsvalue) \<times> state" where
  "StorageService_updateDebt i updates s =
     (let (r, s1) = readData s
      in case r of
           Inl e \<Rightarrow> (Inl (FailedToUpdate e), s1)
         | Inr data \<Rightarrow>
             (case findIndex (has_id i) (debts_of data) of
                None \<Rightarrow> (Inl (FailedToUpdate (DebtNotFound i)), s1)
              | Some debtIndex \<Rightarrow>
                  (let (now, s2) = Date_now s1;
                       updatedDebt = updated_entry (debts_of data ! debtIndex) updates now;
                       data' = with_debts ((debts_of data)[debtIndex := updatedDebt]) data;
                       (w, s3) = writeData data' s2
                   in case w of
                        Inl e \<Rightarrow> (Inl (FailedToUpdate e), s3)
                      | Inr u \<Rightarrow> (Inr updatedDebt, s3))))"

text \<open>\<open>data.debts.splice(debtIndex, 1)\<close>\<close>

definition splice1 :: "nat \<Rightarrow> 'a list \<Rightarrow> 'a list" where
  "splice1 i xs = take i xs @ drop (Suc i) xs"

definition StorageService_deleteDebt :: "string \<Rightarrow> state \<Rightarrow> (error + unit) \<times> state" where
  "StorageService_deleteDebt i s =
     (let (r, s1) = readData s
      in case r of
           Inl e \<Rightarrow> (Inl (FailedToDelete e), s1)
         | Inr data \<Rightarrow>
             (case findIndex (has_id i) (debts_of data) of
                None \<Rightarrow> (Inl (FailedToDelete (DebtNotFound i)), s1)
              | Some debtIndex \<Rightarrow>
                  (let data' = with_debts (splice1 debtIndex (debts_of data)) data;
                       (w, s2) = writeData data' s1
                   in case w of
                        Inl e \<Rightarrow> (Inl (FailedToDelete e), s2)
                      | Inr u \<Rightarrow> (Inr (), s2))))"

text \<open>\<open>data.debts.find(debt => debt.id === id) || null\<close>, with \<open>None\<close> for \<open>null\<close>\<close>

definition StorageService_getDebt :: "string \<Rightarrow> state \<Rightarrow> (error + jsvalue option) \<times> state" where
  "StorageService_getDebt i s =
     (let (r, s1) = readData s
      in case r of
           Inl e \<Rightarrow> (Inl (FailedToGet e), s1)
         | Inr data \<Rightarrow> (Inr (find (has_id i) (debts_of data)), s1))"

definition StorageService_getAllDebts :: "state \<Rightarrow> (error + jsvalue list) \<times> state" where
  "StorageService_getAllDebts s =
     (let (r, s1) = readData s
      in case r of
           Inl e \<Rightarrow> (Inl (FailedToGetAll e), s1)
         | Inr data \<Rightarrow> (Inr (debts_of data), s1))"

subsection \<open>Corruption backup, on the path of initialize\<close>

text \<open>\<open>fs.copyFileSync(storageFile, storageFile + '.backup.' + Date.now())\<close>\<close>

definition backupCorruptedFile :: "state \<Rightarrow> state" where
  "backupCorruptedFile s =
     (case storageFile s of
        None \<Rightarrow> s
      | Some fileContent \<Rightarrow>
          (let (now, s1) = Date_now s
           in s1\<lparr>backups := (now, fileContent) # filter (\<lambda>b. fst b \<noteq> now) (backups s1)\<rparr>))"

definition validateStorageFile :: "state \<Rightarrow> (error + unit) \<times> state" where
  "validateStorageFile s =
     (case storageFile s of
        None \<Rightarrow> (Inr (), s)
      | Some fileContent \<Rightarrow>
          (case JSON_parse fileContent of
             Inl e \<Rightarrow> (Inl CorruptedAndBackedUp, backupCorruptedFile s)
           | Inr data \<Rightarrow>
               (case validateDataStructure data of
                  Inl e \<Rightarrow> (Inl CorruptedAndBackedUp, backupCorruptedFile s)
                | Inr u \<Rightarrow> (Inr (), s))))"

section \<open>DebtService (debt-service.ts) and validateDebtEntry (utils)\<close>

text \<open>
  \<open>!v || v.trim().length === 0\<close>: calling \<open>trim\<close> on a value that is truthy and not a
  string is a \<open>TypeError\<close>.
\<close>

fun blank :: "jsvalue option \<Rightarrow> error + bool" where
  "blank None = Inr True"
| "blank (Some (JStr s)) = Inr (trim s = [])"
| "blank (Some v) = (if truthy v then Inl TypeError else Inr True)"

text \<open>\<open>!v\<close>\<close>

fun falsy :: "jsvalue option \<Rightarrow> bool" where
  "falsy None = True"
| "falsy (Some v) = (\<not> truthy v)"

text \<open>
  \<open>v === undefined || v < 0\<close>. \<open>null\<close> and the booleans compare as 0 and 1, a \<open>Date\<close> as
  its time value and an object as \<open>NaN\<close>, with which no comparison holds; the
  conversion of a string or an array to a number is not followed.
\<close>

fun undefined_or_negative :: "jsvalue option \<Rightarrow> error + bool" where
  "undefined_or_negative None = Inr True"
| "undefined_or_negative (Some JUndefined) = Inr True"
| "undefined_or_negative (Some (JNum r)) = Inr (r < 0)"
| "undefined_or_negative (Some JNaN) = Inr False"
| "undefined_or_negative (Some (JInfinity b)) = Inr (\<not> b)"
| "undefined_or_negative (Some JNull) = Inr False"
| "undefined_or_negative (Some (JBool b)) = Inr False"
| "undefined_or_negative (Some (JDate None)) = Inr False"
| "undefined_or_negative (Some (JDate (Some ms))) = Inr (ms < 0)"
| "undefined_or_negative (Some (JObj kvs)) = Inr False"
| "undefined_or_negative (Some v) = Inl CoercionNotModelled"

text \<open>\<open>v && v.length > n\<close>, reached only once \<open>blank v\<close> has not thrown\<close>

fun longer_than :: "nat \<Rightarrow> jsvalue option \<Rightarrow> bool" where
  "longer_than n (Some (JStr s)) = (length s > n)"
| "longer_than n _ = False"

definition validateDebtEntry :: "jsvalue \<Rightarrow> error + string list" where
  "validateDebtEntry debt =
     (case blank (get_prop debt ''title'') of
        Inl e \<Rightarrow> Inl e
      | Inr noTitle \<Rightarrow>
     (case blank (get_prop debt ''description'') of
        Inl e \<Rightarrow> Inl e
      | Inr noDescription \<Rightarrow>
     (case undefined_or_negative (get_prop debt ''lineNumber'') of
        Inl e \<Rightarrow> Inl e
      | Inr badLine \<Rightarrow>
          Inr ((if noTitle then [''Title is required''] else [])
             @ (if noDescription then [''Description is required''] else [])
             @ (if falsy (get_prop debt ''filePath'') then [''File path is required''] else [])
             @ (if badLine then [''Valid line number is required''] else [])
             @ (if longer_than 100 (get_prop debt ''title'')
                then [''Title must be 100 characters or less''] else [])
             @ (if longer_than 500 (get_prop debt ''description'')
                then [''Description must be 500 characters or less''] else [])))))"

definition createDebt :: "jsvalue \<Rightarrow> state \<Rightarrow> (error + jsvalue) \<times> state" where
  "createDebt debt s =
     (case validateDebtEntry debt of
        Inl e \<Rightarrow> (Inl e, s)
      | Inr validationErrors \<Rightarrow>
          if length validationErrors > 0 then (Inl (InvalidDebtEntry validationErrors), s)
          else addDebt debt s)"

definition getAllDebts :: "state \<Rightarrow> (error + jsvalue list) \<times> state" where
  "getAllDebts s = StorageService_getAllDebts s"

definition deleteDebt :: "string \<Rightarrow> state \<Rightarrow> (error + unit) \<times> state" where
  "deleteDebt i s = StorageService_deleteDebt i s"

definition updateDebt :: "string \<Rightarrow> jsvalue \<Rightarrow> state \<Rightarrow> (error + jsvalue) \<times> state" where
  "updateDebt i updates s =
     (let (r, s1) = StorageService_getDebt i s
      in case r of
           Inl e \<Rightarrow> (Inl e, s1)
         | Inr None \<Rightarrow> (Inl (DebtNotFound i), s1)
         | Inr (Some existing) \<Rightarrow>
             (let merged = JObj (spread (own_props existing) (own_props updates))
              in case validateDebtEntry merged of
                   Inl e \<Rightarrow> (Inl e, s1)
                 | Inr validationErrors \<Rightarrow>
                     if length validationErrors > 0
                     then (Inl (InvalidUpdate validationErrors), s1)
                     else StorageService_updateDebt i updates s1))"

text \<open>
  \<open>allowedStatusTransitions\<close> is an object keyed by the status strings. Reading it at a
  name that every object inherits from \<open>Object.prototype\<close> gives a value that is not
  nullish and has no \<open>includes\<close>, so the call is a \<open>TypeError\<close>; at any other name it gives
  \<open>undefined\<close>, replaced by \<open>[]\<close>. A status that is not a string is turned into a property
  name first, which only for an array can be a name of the table.
\<close>

definition allowedStatusTransitions :: "(string \<times> DebtStatus list) list" where
  "allowedStatusTransitions =
     [(status_value OPEN, [IN_PROGRESS, REVIEW, RESOLVED, CLOSED]),
      (status_value IN_PROGRESS, [REVIEW, RESOLVED, OPEN]),
      (status_value REVIEW, [RESOLVED, IN_PROGRESS, OPEN]),
      (status_value RESOLVED, [CLOSED, OPEN]),
      (status_value CLOSED, [OPEN])]"

definition Object_prototype_names :: "string list" where
  "Object_prototype_names =
     [''constructor'', ''__defineGetter__'', ''__defineSetter__'', ''hasOwnProperty'',
      ''__lookupGetter__'', ''__lookupSetter__'', ''isPrototypeOf'',
      ''propertyIsEnumerable'', ''toString'', ''valueOf'', ''__proto__'',
      ''toLocaleString'']"

fun allowed_for :: "jsvalue option \<Rightarrow> error + DebtStatus list" where
  "allowed_for (Some (JStr st)) =
     (case map_of allowedStatusTransitions st of
        Some allowed \<Rightarrow> Inr allowed
      | None \<Rightarrow> if st \<in> set Object_prototype_names then Inl TypeError else Inr [])"
| "allowed_for (Some (JArr xs)) = Inl CoercionNotModelled"
| "allowed_for _ = Inr []"

definition transitionStatus ::
  "string \<Rightarrow> DebtStatus \<Rightarrow> state \<Rightarrow> (error + jsvalue) \<times> state" where
  "transitionStatus i newStatus s =
     (let (r, s1) = StorageService_getDebt i s
      in case r of
           Inl e \<Rightarrow> (Inl e, s1)
         | Inr None \<Rightarrow> (Inl (DebtNotFound i), s1)
         | Inr (Some debt) \<Rightarrow>
             (case allowed_for (get_prop debt ''status'') of
                Inl e \<Rightarrow> (Inl e, s1)
              | Inr allowed \<Rightarrow>
                  if newStatus \<notin> set allowed
                  then (Inl (InvalidStatusTransition (get_prop debt ''status'') newStatus), s1)
                  else StorageService_updateDebt i
                         (JObj [(''status'', JStr (status_value newStatus))]) s1))"

section \<open>ScannerService.extractScanResults (scanner-service.ts)\<close>

record ProjectConfig =
  enabled :: bool
  autoScan :: bool
  debtMarkers :: "string list"
  storagePath :: string
  notifications :: bool
  scanPatterns :: "string list"
  excludePatterns :: "string list"

definition DEBT_MARKERS :: "string list" where
  "DEBT_MARKERS = [''TODO'', ''FIXME'', ''HACK'', ''BUG'', ''NOTE'']"

record ScanResult =
  filePath :: string
  lineNumber :: nat
  marker :: string
  content :: string
  suggestedDebt :: jsvalue

definition to_upper :: "char \<Rightarrow> char" where
  "to_upper c =
     (case map_of (zip ''abcdefghijklmnopqrstuvwxyz'' ''ABCDEFGHIJKLMNOPQRSTUVWXYZ'') c of
        None \<Rightarrow> c
      | Some u \<Rightarrow> u)"

definition toUpperCase :: "string \<Rightarrow> string" where
  "toUpperCase s = map to_upper s"

text \<open>
  The pattern is built from the template literal
  \<^verbatim>\<open>`(?:^|[^\w])(${markerAlternation})(?:\b)\s*[:\-]\s*(.+)$`\<close>
  with flag \<open>i\<close>. The literal is not raw: in it \<^verbatim>\<open>\w\<close> and \<^verbatim>\<open>\s\<close> are the letters
  \<open>w\<close> and \<open>s\<close>, \<^verbatim>\<open>\-\<close> is \<open>-\<close> and \<^verbatim>\<open>\b\<close> is the backspace character U+0008.
  The pattern that \<open>RegExp\<close> receives is therefore
  \<^verbatim>\<open>(?:^|[^w])(M1|...|Mn)(?:<U+0008>)s*[:-]s*(.+)$\<close>,
  where each \<open>Mi\<close> is a marker with its special characters escaped by \<open>escapeRegExp\<close>, so
  that it matches the marker's own characters. The functions below are the
  backtracking matcher for this pattern; with flag \<open>i\<close> two characters match when
  their upper-case forms agree.
\<close>

definition same_letter :: "char \<Rightarrow> char \<Rightarrow> bool" where
  "same_letter a b = (to_upper a = to_upper b)"

text \<open>An escaped marker at the head of the input: the text it matched and the rest.\<close>

fun match_marker :: "string \<Rightarrow> string \<Rightarrow> (string \<times> string) option" where
  "match_marker [] xs = Some ([], xs)"
| "match_marker (c # cs) [] = None"
| "match_marker (c # cs) (x # xs) =
     (if same_letter c x
      then (case match_marker cs xs of None \<Rightarrow> None | Some (t, r) \<Rightarrow> Some (x # t, r))
      else None)"

definition is_line_terminator :: "char \<Rightarrow> bool" where
  "is_line_terminator c = (c = CHR 0x0A \<or> c = CHR 0x0D)"

text \<open>
  \<^verbatim>\<open>s*(.+)$\<close>: the dot takes no line terminator and \<open>$\<close> is the end of the input, so
  the rest of the line must be non-empty and free of line terminators; the greedy
  \<^verbatim>\<open>s*\<close> keeps every leading \<open>s\<close>, or all but the last one when nothing else follows.
  The result is capture group 2.
\<close>

definition match_description :: "string \<Rightarrow> string option" where
  "match_description xs =
     (if xs = [] \<or> list_ex is_line_terminator xs then None
      else (let t = dropWhile (same_letter CHR ''s'') xs
            in Some (if t = [] then [last xs] else t)))"

text \<open>\<^verbatim>\<open>(?:<U+0008>)s*[:-]s*(.+)$\<close>, after a marker\<close>

definition match_after_marker :: "string \<Rightarrow> string option" where
  "match_after_marker xs =
     (case xs of
        [] \<Rightarrow> None
      | b # ys \<Rightarrow>
          if b \<noteq> CHR 0x08 then None
          else (case dropWhile (same_letter CHR ''s'') ys of
                  [] \<Rightarrow> None
                | d # zs \<Rightarrow> if d = CHR '':'' \<or> d = CHR ''-'' then match_description zs else None))"

text \<open>The alternation tries the markers in order; the result is groups 1 and 2.\<close>

fun match_alternation :: "string list \<Rightarrow> string \<Rightarrow> (string \<times> string) option" where
  "match_alternation [] xs = None"
| "match_alternation (m # ms) xs =
     (case match_marker m xs of
        None \<Rightarrow> match_alternation ms xs
      | Some (t, r) \<Rightarrow>
          (case match_after_marker r of
             None \<Rightarrow> match_alternation ms xs
           | Some g \<Rightarrow> Some (t, g)))"

text \<open>
  A match attempt at one position: \<^verbatim>\<open>^\<close> holds at the start of the line only; failing
  that, \<^verbatim>\<open>[^w]\<close> takes one character other than \<open>w\<close> and \<open>W\<close>.
\<close>

definition match_at :: "bool \<Rightarrow> string list \<Rightarrow> string \<Rightarrow> (string \<times> string) option" where
  "match_at atStart ms xs =
     (case (if atStart then match_alternation ms xs else None) of
        Some r \<Rightarrow> Some r
      | None \<Rightarrow>
          (case xs of
             [] \<Rightarrow> None
           | c # ys \<Rightarrow> if same_letter c CHR ''w'' then None else match_alternation ms ys))"

text \<open>\<open>line.match(markerRegex)\<close>: the first position, from the left, with a match.\<close>

fun regex_search :: "bool \<Rightarrow> string list \<Rightarrow> string \<Rightarrow> (string \<times> string) option" where
  "regex_search atStart ms [] = match_at atStart ms []"
| "regex_search atStart ms (c # cs) =
     (case match_at atStart ms (c # cs) of
        Some r \<Rightarrow> Some r
      | None \<Rightarrow> regex_search False ms cs)"

definition line_match :: "string list \<Rightarrow> string \<Rightarrow> (string \<times> string) option" where
  "line_match ms line = regex_search True ms line"

text \<open>\<open>content.split(/\r?\n/)\<close>; \<open>cur\<close> is the current line, reversed.\<close>

fun split_lines :: "string \<Rightarrow> string \<Rightarrow> string list" where
  "split_lines cur [] = [rev cur]"
| "split_lines cur (c # cs) =
     (if c = CHR 0x0A then rev cur # split_lines [] cs
      else if c = CHR 0x0D \<and> cs \<noteq> [] \<and> hd cs = CHR 0x0A then rev cur # split_lines [] (tl cs)
      else split_lines (c # cur) cs)"

text \<open>
  \<open>getRelativePath\<close> rests on the workspace root and \<open>path.relative\<close> and is a parameter.
  \<open>buildSuggestedDebt\<close> also reads context lines, which it does not use.
\<close>

definition buildSuggestedDebt ::
  "(string \<Rightarrow> string) \<Rightarrow> string \<Rightarrow> nat \<Rightarrow> string \<Rightarrow> string \<Rightarrow> jsvalue" where
  "buildSuggestedDebt getRelativePath path line mk description =
     JObj [(''title'', JStr (take 100 (mk @ '': '' @ description))),
           (''description'', JStr description),
           (''filePath'', JStr (getRelativePath path)),
           (''lineNumber'', JNum (of_nat line)),
           (''severity'', JStr (severity_value LOW)),
           (''category'', JStr (category_value CODE_QUALITY)),
           (''status'', JStr (status_value OPEN)),
           (''priority'', JStr (priority_value P_NORMAL)),
           (''tags'', JArr [JStr mk])]"

fun scan_lines ::
  "(string \<Rightarrow> string) \<Rightarrow> string \<Rightarrow> string list \<Rightarrow> nat \<Rightarrow> string list \<Rightarrow> ScanResult list" where
  "scan_lines getRelativePath path ms index [] = []"
| "scan_lines getRelativePath path ms index (line # lines) =
     (case line_match ms line of
        None \<Rightarrow> scan_lines getRelativePath path ms (index + 1) lines
      | Some (g1, g2) \<Rightarrow>
          (let mk = toUpperCase g1;
               description = trim g2;
               lineNumberOneBased = index + 1
           in \<lparr>filePath = getRelativePath path, lineNumber = lineNumberOneBased, marker = mk,
               content = line,
               suggestedDebt =
                 buildSuggestedDebt getRelativePath path lineNumberOneBased mk description\<rparr>
              # scan_lines getRelativePath path ms (index + 1) lines))"

definition extractScanResults ::
  "(string \<Rightarrow> string) \<Rightarrow> string \<Rightarrow> string \<Rightarrow> ProjectConfig \<Rightarrow> ScanResult list" where
  "extractScanResults getRelativePath path text config =
     (let markers = (if length (debtMarkers config) > 0 then debtMarkers config
                     else DEBT_MARKERS)
      in scan_lines getRelativePath path markers 0 (split_lines [] text))"

section \<open>Example data\<close>

definition example_entry :: "string \<Rightarrow> string \<Rightarrow> string \<Rightarrow> jsvalue" where
  "example_entry i d st =
     JObj [(''id'', JStr i), (''title'', JStr ''Fix parser''), (''description'', JStr d),
           (''filePath'', JStr ''src/parser.ts''), (''lineNumber'', JNum 12),
           (''severity'', JStr ''medium''), (''category'', JStr ''code-quality''),
           (''status'', JStr st), (''priority'', JStr ''normal''),
           (''tags'', JArr [JStr ''parser'']),
           (''createdAt'', JStr ''2024-01-01T00:00:00.000Z''),
           (''updatedAt'', JStr ''2024-01-01T00:00:00.000Z'')]"

definition example_document :: "jsvalue list \<Rightarrow> jsvalue" where
  "example_document ds =
     JObj [(''debts'', JArr ds),
           (''metadata'', JObj [(''version'', JStr ''1.0.0''),
                                (''lastUpdated'', JStr ''2024-01-01T00:00:00.000Z''),
                                (''totalDebts'', JNum (of_nat (length ds))),
                                (''projectName'', JStr ''demo'')]),
           (''settings'', JObj [(''githubIntegration'', JBool False),
                                (''autoCommit'', JBool False),
                                (''autoPush'', JBool False),
                                (''commitMessageTemplate'',
                                 JStr ''fix: update technical debt - {count} items'')])]"

text \<open>A service at rest over a given storage file; the clock advances by one second a reading.\<close>

definition example_state :: "file_text option \<Rightarrow> state" where
  "example_state f =
     \<lparr>storageFile = f, lockFile = None, backups = [], isLocked = False,
      clock = (\<lambda>n. 1700000000000 + 1000 * int n), reads = 0,
      random = (\<lambda>n. ''k3j9x2abcd''), draws = 0\<rparr>"

definition example_fields :: DebtFields where
  "example_fields =
     \<lparr>debt_title = ''Fix parser'', debt_description = ''Handle empty input'',
      debt_filePath = ''src/parser.ts'', debt_lineNumber = 12, debt_severity = MEDIUM,
      debt_category = CODE_QUALITY, debt_status = OPEN, debt_priority = P_NORMAL,
      debt_dueDate = None, debt_tags = [''parser''], debt_context = None,
      debt_assignee = None, debt_estimatedEffort = None, debt_notes = None\<rparr>"

text \<open>The entries of the document in the storage file.\<close>

definition stored_debts :: "state \<Rightarrow> jsvalue list" where
  "stored_debts s =
     (case storageFile s of Some (Stringified data) \<Rightarrow> debts_of data | _ \<Rightarrow> [])"

text \<open>A service at rest: it holds no lock and no lock file is present.\<close>

definition idle :: "state \<Rightarrow> bool" where
  "idle s = (\<not> isLocked s \<and> lockFile s = None)"

text \<open>
  The storage file holds a text that parses to the document \<open>d\<close>, and \<open>d\<close> is
  structurally valid.
\<close>

definition stores :: "state \<Rightarrow> jsvalue \<Rightarrow> bool" where
  "stores s d =
     (storageFile s = Some (Stringified d) \<and> is_json d \<and> validateDataStructure d = Inr ())"

text \<open>
  The transition table in the words of the specification: the statuses that may follow
  a given status. It is compared below with \<open>allowedStatusTransitions\<close> of the source.
\<close>

fun whitelist_row :: "DebtStatus \<Rightarrow> DebtStatus set" where
  "whitelist_row OPEN = {IN_PROGRESS, REVIEW, RESOLVED, CLOSED}"
| "whitelist_row IN_PROGRESS = {REVIEW, RESOLVED, OPEN}"
| "whitelist_row REVIEW = {RESOLVED, IN_PROGRESS, OPEN}"
| "whitelist_row RESOLVED = {CLOSED, OPEN}"
| "whitelist_row CLOSED = {OPEN}"

lemmas storage_defs =
  readData_def writeData_def acquireLock_def releaseLock_def Date_now_def Math_random_def
  JSON_stringify_def stamp_def generateDebtId_def addDebt_def StorageService_updateDebt_def
  StorageService_deleteDebt_def StorageService_getDebt_def StorageService_getAllDebts_def
  splice1_def has_id_def spread_def debts_of_def with_debts_def new_entry_def updated_entry_def

lemmas validation_defs =
  validateDataStructure_def validateDebtStructure_def requiredFields_def trim_def is_space_def

lemmas service_defs =
  createDebt_def updateDebt_def deleteDebt_def getAllDebts_def transitionStatus_def
  validateDebtEntry_def allowedStatusTransitions_def

lemmas example_defs =
  example_entry_def example_document_def example_state_def example_fields_def
  stored_debts_def

section \<open>Objects, assignment and serialisation\<close>

lemma map_of_assign: "map_of (assign k v l) = (map_of l)(k \<mapsto> v)"
  by (induction l) auto

lemma keys_assign: "fst ` set (assign k v l) = insert k (fst ` set l)"
  by (induction l) auto


lemma map_of_spread_other: "k \<notin> fst ` set b \<Longrightarrow> map_of (spread a b) k = map_of a k"
  unfolding spread_def
  by (induction b arbitrary: a) (auto simp: map_of_assign)

lemma keys_spread: "fst ` set (spread a b) = fst ` set a \<union> fst ` set b"
  unfolding spread_def
  by (induction b arbitrary: a) (auto simp: keys_assign)

lemma spread_single: "spread a [(k, v)] = assign k v a"
  by (simp add: spread_def)


lemma list_all_assign:
  "list_all P l \<Longrightarrow> P (k, v) \<Longrightarrow> list_all P (assign k v l)"
  by (induction l) auto

lemma list_all_spread:
  "list_all P a \<Longrightarrow> list_all P b \<Longrightarrow> list_all P (spread a b)"
  unfolding spread_def
  by (induction b arbitrary: a) (auto simp: list_all_assign)

lemma map_assign:
  "map (map_prod id f) (assign k v l) = assign k (f v) (map (map_prod id f) l)"
  by (induction l) auto

lemma map_spread:
  "map (map_prod id f) (spread a b) = spread (map (map_prod id f) a) (map (map_prod id f) b)"
  unfolding spread_def
  by (induction b arbitrary: a) (simp_all add: map_assign)

lemma is_json_JArr [simp]: "is_json (JArr xs) = list_all is_json xs"
  by (simp add: list_all_iff)

lemma is_json_JObj [simp]: "is_json (JObj kvs) = list_all (\<lambda>kv. is_json (snd kv)) kvs"
  by (auto simp: list_all_iff)

declare is_json.simps(9,10) [simp del]

lemma is_json_defined: "is_json v \<Longrightarrow> v \<noteq> JUndefined"
  by auto

lemma toJSON_pure: "is_json v \<Longrightarrow> toJSON v = v"
proof (induction v)
  case (JArr xs)
  then have "map toJSON xs = xs"
    by (simp add: list_all_iff map_idI)
  moreover have "map array_element xs = xs"
  proof (rule map_idI)
    fix x assume "x \<in> set xs"
    with JArr.prems have "is_json x" by (simp add: list_all_iff)
    then show "array_element x = x" by (cases x) simp_all
  qed
  ultimately show ?case by simp
next
  case (JObj kvs)
  have "map (map_prod id toJSON) kvs = kvs"
  proof (rule map_idI)
    fix kv assume kv: "kv \<in> set kvs"
    with JObj.prems have "is_json (snd kv)" by (simp add: list_all_iff)
    with JObj.IH [of kv "snd kv"] kv show "map_prod id toJSON kv = kv"
      by (cases kv) auto
  qed
  moreover have "\<forall>kv\<in>set kvs. snd kv \<noteq> JUndefined"
    using JObj.prems by (auto simp: list_all_iff)
  then have "written_props kvs = kvs"
    by (simp add: written_props_def)
  ultimately show ?case by simp
qed simp_all

lemma toJSON_undefined: "toJSON v = JUndefined \<longleftrightarrow> v = JUndefined"
  by (cases v) (auto split: option.splits)

text \<open>The array element written for a value; for an object it is what \<open>toJSON\<close> gives.\<close>

lemma persisted_pure: "is_json v \<Longrightarrow> array_element (toJSON v) = v"
  using toJSON_pure [of v] by (cases v) auto

lemma persisted_pure_list:
  "list_all is_json ds \<Longrightarrow> map array_element (map toJSON ds) = ds"
  by (induction ds) (simp_all add: persisted_pure del: is_json_JArr is_json_JObj)

lemma persisted_object: "array_element (toJSON (JObj l)) = toJSON (JObj l)"
  by simp

lemma toJSON_object_defined:
  "\<forall>kv\<in>set l. snd kv \<noteq> JUndefined \<Longrightarrow> toJSON (JObj l) = JObj (map (map_prod id toJSON) l)"
  by (simp add: written_props_def toJSON_undefined)

lemma toJSON_props_pure:
  "list_all (\<lambda>kv. is_json (snd kv)) l \<Longrightarrow> map (map_prod id toJSON) l = l"
  by (induction l) (auto simp: toJSON_pure simp del: is_json_JArr is_json_JObj)


section \<open>Reading and writing at rest\<close>

lemma readData_idle:
  "idle s \<Longrightarrow> readData s =
     ((case storageFile s of
         None \<Rightarrow> Inl (FailedToRead StorageFileNotFound)
       | Some fileContent \<Rightarrow>
           (case JSON_parse fileContent of
              Inl e \<Rightarrow> Inl (FailedToRead e)
            | Inr data \<Rightarrow>
                (case validateDataStructure data of
                   Inl e \<Rightarrow> Inl (FailedToRead e)
                 | Inr u \<Rightarrow> Inr data))), s)"
  by (simp add: readData_def acquireLock_def releaseLock_def idle_def)

lemma writeData_idle:
  "idle s \<Longrightarrow> writeData d s =
     (case validateDataStructure d of
        Inl e \<Rightarrow> (Inl (FailedToWrite e), s)
      | Inr u \<Rightarrow>
          (Inr (), s\<lparr>storageFile := Some (Stringified (toJSON (stamp (clock s (reads s)) d))),
                      reads := Suc (reads s)\<rparr>))"
  by (simp add: writeData_def acquireLock_def releaseLock_def idle_def Date_now_def
      JSON_stringify_def split: sum.splits)

lemma idle_update [simp]:
  "idle (s\<lparr>reads := n\<rparr>) = idle s"
  "idle (s\<lparr>draws := k\<rparr>) = idle s"
  "idle (s\<lparr>storageFile := f\<rparr>) = idle s"
  "idle (s\<lparr>backups := b\<rparr>) = idle s"
  by (simp_all add: idle_def)

lemma truthy_set_prop [simp]: "truthy (set_prop k v m) = truthy m"
  by (cases m) auto

lemma typeof_set_prop [simp]: "typeof (set_prop k v m) = typeof m"
  by (cases m) auto

lemma valid_document_shape:
  assumes "validateDataStructure d = Inr ()"
  shows "\<exists>kvs ds. d = JObj kvs \<and> map_of kvs ''debts'' = Some (JArr ds)
           \<and> validate_each ds = Inr ()
           \<and> \<not> not_an_object (map_of kvs ''metadata'')
           \<and> \<not> not_an_object (map_of kvs ''settings'')"
proof (cases d)
  case (JObj kvs)
  with assms show ?thesis
    by (auto simp: validateDataStructure_def split: option.splits jsvalue.splits if_splits)
qed (use assms in \<open>auto simp: validateDataStructure_def\<close>)

lemma validateDataStructure_stamp:
  "validateDataStructure (stamp t d) = validateDataStructure d"
proof (cases d)
  case (JObj kvs)
  show ?thesis
  proof (cases "map_of kvs ''metadata''")
    case None
    with JObj show ?thesis by (simp add: stamp_def)
  next
    case (Some m)
    with JObj show ?thesis
      by (simp add: stamp_def validateDataStructure_def map_of_assign
          split: option.splits jsvalue.splits)
  qed
qed (simp_all add: stamp_def)

lemma get_prop_stamp_other:
  "k \<noteq> ''metadata'' \<Longrightarrow> get_prop (stamp t d) k = get_prop d k"
  by (cases d) (auto simp: stamp_def map_of_assign split: option.splits)


lemma debts_of_stamp [simp]: "debts_of (stamp t d) = debts_of d"
  using get_prop_stamp_other [of "''debts''" t d] by (simp add: debts_of_def)


lemma validateDataStructure_with_debts:
  assumes "validateDataStructure d = Inr ()"
  shows "validateDataStructure (with_debts ds d) = validate_each ds"
proof -
  from valid_document_shape [OF assms] obtain kvs ds0 where
    d: "d = JObj kvs" and "map_of kvs ''debts'' = Some (JArr ds0)"
    and m: "\<not> not_an_object (map_of kvs ''metadata'')"
    and st: "\<not> not_an_object (map_of kvs ''settings'')"
    by blast
  then show ?thesis
    by (simp add: with_debts_def validateDataStructure_def map_of_assign)
qed

lemma debts_of_with_debts:
  "validateDataStructure d = Inr () \<Longrightarrow> debts_of (with_debts ds d) = ds"
  using valid_document_shape [of d]
  by (auto simp: with_debts_def debts_of_def map_of_assign)

lemma get_prop_with_debts_other:
  "k \<noteq> ''debts'' \<Longrightarrow> get_prop (with_debts ds d) k = get_prop d k"
  by (cases d) (auto simp: with_debts_def map_of_assign)

text \<open>Documents that JSON carries stay such under the assignments of the service.\<close>

lemma is_json_set_prop: "is_json v \<Longrightarrow> is_json d \<Longrightarrow> is_json (set_prop k v d)"
  by (cases d) (simp_all add: list_all_assign)

lemma is_json_get_prop:
  assumes "is_json d" and "get_prop d k = Some m"
  shows "is_json m"
proof (cases d)
  case (JObj kvs)
  with assms(2) have "(k, m) \<in> set kvs"
    by (simp add: map_of_SomeD)
  with assms(1) JObj show ?thesis
    by (auto simp: list_all_iff)
qed (use assms in simp_all)

lemma is_json_stamp: "is_json d \<Longrightarrow> is_json (stamp t d)"
  unfolding stamp_def
  by (auto split: option.splits intro!: is_json_set_prop dest: is_json_get_prop)

lemma is_json_with_debts: "is_json d \<Longrightarrow> list_all is_json ds \<Longrightarrow> is_json (with_debts ds d)"
  unfolding with_debts_def by (rule is_json_set_prop) simp_all

lemma is_json_debts: "is_json d \<Longrightarrow> list_all is_json (debts_of d)"
  unfolding debts_of_def
  by (auto split: option.splits jsvalue.splits dest: is_json_get_prop)

lemma set_assign_subset: "set (assign k v l) \<subseteq> insert (k, v) (set l)"
  by (induction l) auto

text \<open>The text written for a stored document whose entries have been replaced.\<close>

lemma toJSON_written:
  assumes "is_json d" and "validateDataStructure d = Inr ()"
  shows "toJSON (stamp t (with_debts ds d)) =
         stamp t (with_debts (map array_element (map toJSON ds)) d)"
proof -
  from valid_document_shape [OF assms(2)] obtain kvs ds0 where
    d: "d = JObj kvs" and m0: "\<not> not_an_object (map_of kvs ''metadata'')"
    by blast
  from m0 obtain m where m: "map_of kvs ''metadata'' = Some m"
    by (cases "map_of kvs ''metadata''") auto
  have pure: "list_all (\<lambda>kv. is_json (snd kv)) kvs"
    using assms(1) d by simp
  have pm: "is_json m"
    using is_json_get_prop [OF assms(1), of "''metadata''" m] d m by simp
  define m' where "m' n = set_prop ''totalDebts'' (JNum (of_nat n))
      (set_prop ''lastUpdated'' (JStr (toISOString t)) m)" for n :: nat
  have pm': "is_json (m' n)" for n
    unfolding m'_def by (intro is_json_set_prop pm) simp_all
  have st: "stamp t (with_debts xs d) =
      JObj (assign ''metadata'' (m' (length xs)) (assign ''debts'' (JArr xs) kvs))" for xs
    by (simp add: d with_debts_def stamp_def map_of_assign m m'_def)
  let ?l = "assign ''metadata'' (m' (length ds)) (assign ''debts'' (JArr ds) kvs)"
  have "set ?l \<subseteq> insert (''metadata'', m' (length ds)) (insert (''debts'', JArr ds) (set kvs))"
    using set_assign_subset [of "''metadata''" "m' (length ds)" "assign ''debts'' (JArr ds) kvs"]
      set_assign_subset [of "''debts''" "JArr ds" kvs]
    by auto
  moreover have "\<forall>kv\<in>set kvs. snd kv \<noteq> JUndefined"
    using pure by (auto simp: list_all_iff)
  moreover have "m' (length ds) \<noteq> JUndefined"
    using pm' [of "length ds"] by auto
  ultimately have "\<forall>kv\<in>set ?l. snd kv \<noteq> JUndefined"
    by auto
  then have "toJSON (JObj ?l) = JObj (map (map_prod id toJSON) ?l)"
    by (rule toJSON_object_defined)
  also have "\<dots> = JObj (assign ''metadata'' (m' (length ds))
      (assign ''debts'' (JArr (map array_element (map toJSON ds))) kvs))"
    by (simp add: map_assign toJSON_props_pure [OF pure] toJSON_pure [OF pm']
        del: is_json_JArr is_json_JObj)
  finally show ?thesis
    by (simp add: st)
qed

lemma writeData_with_debts:
  assumes "idle s" and "is_json d" and "validateDataStructure d = Inr ()"
  shows "writeData (with_debts ds d) s =
     (case validate_each ds of
        Inl e \<Rightarrow> (Inl (FailedToWrite e), s)
      | Inr u \<Rightarrow>
          (Inr (), s\<lparr>storageFile := Some (Stringified (stamp (clock s (reads s))
                         (with_debts (map array_element (map toJSON ds)) d))),
                      reads := Suc (reads s)\<rparr>))"
  by (simp add: writeData_idle [OF assms(1)] validateDataStructure_with_debts [OF assms(3)]
      toJSON_written [OF assms(2,3)] split: sum.splits)

section \<open>The operations on a service at rest\<close>

lemma stores_valid: "stores s d \<Longrightarrow> validateDataStructure d = Inr ()"
  by (simp add: stores_def)

lemma stores_json: "stores s d \<Longrightarrow> is_json d"
  by (simp add: stores_def)

lemma readData_stores: "idle s \<Longrightarrow> stores s d \<Longrightarrow> readData s = (Inr d, s)"
  by (simp add: readData_idle stores_def)

lemma findIndex_Some:
  "findIndex P xs = Some k \<Longrightarrow> k < length xs \<and> P (xs ! k) \<and> find P xs = Some (xs ! k)"
proof (induction xs arbitrary: k)
  case (Cons x xs)
  then show ?case
    by (auto split: if_splits option.splits)
qed simp

lemma findIndex_None: "findIndex P xs = None \<longleftrightarrow> find P xs = None"
  by (induction xs) (auto split: option.splits)

lemma findIndex_None_filter: "findIndex P xs = None \<longleftrightarrow> filter P xs = []"
  by (induction xs) (auto split: option.splits)

lemma validate_each_append:
  "validate_each (xs @ ys) =
     (case validate_each xs of Inl e \<Rightarrow> Inl e | Inr u \<Rightarrow> validate_each ys)"
  by (induction xs) (auto split: sum.splits)

lemma validate_each_all:
  "validate_each ds = Inr () \<longleftrightarrow> list_all (\<lambda>d. validateDebtStructure d = Inr ()) ds"
  by (induction ds) (auto split: sum.splits)

lemma validate_each_update:
  "validate_each ds = Inr () \<Longrightarrow> k < length ds \<Longrightarrow>
     validate_each (ds[k := e]) = validateDebtStructure e"
proof (induction ds arbitrary: k)
  case (Cons a ds)
  then show ?case
    by (cases k) (auto split: sum.splits)
qed simp

lemma validate_each_splice:
  "validate_each ds = Inr () \<Longrightarrow> validate_each (splice1 k ds) = Inr ()"
  by (auto simp: validate_each_all splice1_def list_all_iff dest: in_set_takeD in_set_dropD)

lemma is_json_splice: "list_all is_json ds \<Longrightarrow> list_all is_json (splice1 k ds)"
  by (auto simp: splice1_def list_all_iff dest: in_set_takeD in_set_dropD)

lemma stores_valid_entries: "stores s d \<Longrightarrow> validate_each (debts_of d) = Inr ()"
  using valid_document_shape [of d] by (auto simp: stores_def debts_of_def)

lemma stores_json_entries: "stores s d \<Longrightarrow> list_all is_json (debts_of d)"
  by (simp add: stores_def is_json_debts)

lemma getAllDebts_idle:
  "idle s \<Longrightarrow> stores s d \<Longrightarrow> getAllDebts s = (Inr (debts_of d), s)"
  by (simp add: getAllDebts_def StorageService_getAllDebts_def readData_stores)

lemma getDebt_idle:
  "idle s \<Longrightarrow> stores s d \<Longrightarrow>
     StorageService_getDebt i s = (Inr (find (has_id i) (debts_of d)), s)"
  by (simp add: StorageService_getDebt_def readData_stores)

lemma stored_debts_written [simp]:
  "validateDataStructure d = Inr () \<Longrightarrow>
     stored_debts (s\<lparr>storageFile := Some (Stringified (stamp t (with_debts ds d))),
                      reads := n\<rparr>) = ds"
  by (simp add: stored_debts_def debts_of_with_debts)

text \<open>The entries written when one entry is added, replaced or removed.\<close>

lemma persisted_list:
  "list_all is_json ds \<Longrightarrow> map (array_element \<circ> toJSON) ds = ds"
  using persisted_pure_list [of ds] by simp

lemma persisted_new_entry:
  "array_element (toJSON (new_entry debt i c u)) = toJSON (new_entry debt i c u)"
  by (simp add: new_entry_def)

lemma persisted_updated_entry:
  "array_element (toJSON (updated_entry old u t)) = toJSON (updated_entry old u t)"
  by (simp add: updated_entry_def)

lemma persisted_splice:
  "list_all is_json ds \<Longrightarrow> map (array_element \<circ> toJSON) (splice1 k ds) = splice1 k ds"
  by (simp add: persisted_list is_json_splice)

lemma addDebt_idle:
  assumes "idle s" and "stores s d"
  shows "addDebt debt s =
     (let newDebt = new_entry debt
            (''debt'' @ ''-'' @ show_int (clock s (reads s)) @ ''-'' @ take 6 (random s (draws s)))
            (clock s (Suc (reads s))) (clock s (Suc (Suc (reads s))));
          s4 = s\<lparr>reads := Suc (Suc (Suc (reads s))), draws := Suc (draws s)\<rparr>
      in case validateDebtStructure newDebt of
           Inl e \<Rightarrow> (Inl (FailedToAdd (FailedToWrite e)), s4)
         | Inr u \<Rightarrow>
             (Inr newDebt,
              s4\<lparr>storageFile := Some (Stringified
                    (stamp (clock s (Suc (Suc (Suc (reads s)))))
                       (with_debts (debts_of d @ [toJSON newDebt]) d))),
                  reads := Suc (Suc (Suc (Suc (reads s))))\<rparr>))"
proof -
  note v = stores_valid [OF assms(2)] and j = stores_json [OF assms(2)]
  note ve = stores_valid_entries [OF assms(2)] and je = stores_json_entries [OF assms(2)]
  show ?thesis
    unfolding addDebt_def
    using assms(1)
    by (simp add: readData_stores [OF assms] generateDebtId_def Date_now_def Math_random_def
        Let_def writeData_with_debts [OF _ j v] validate_each_append ve persisted_list [OF je] persisted_new_entry
        split: sum.splits)
qed

lemma StorageService_updateDebt_idle:
  assumes "idle s" and "stores s d"
  shows "StorageService_updateDebt i u s =
     (case findIndex (has_id i) (debts_of d) of
        None \<Rightarrow> (Inl (FailedToUpdate (DebtNotFound i)), s)
      | Some k \<Rightarrow>
          (let e' = updated_entry (debts_of d ! k) u (clock s (reads s))
           in case validateDebtStructure e' of
                Inl e \<Rightarrow> (Inl (FailedToUpdate (FailedToWrite e)), s\<lparr>reads := Suc (reads s)\<rparr>)
              | Inr v \<Rightarrow>
                  (Inr e',
                   s\<lparr>storageFile := Some (Stringified
                         (stamp (clock s (Suc (reads s)))
                            (with_debts ((debts_of d)[k := toJSON e']) d))),
                     reads := Suc (Suc (reads s))\<rparr>)))"
proof -
  note v = stores_valid [OF assms(2)] and j = stores_json [OF assms(2)]
  note ve = stores_valid_entries [OF assms(2)] and je = stores_json_entries [OF assms(2)]
  show ?thesis
  proof (cases "findIndex (has_id i) (debts_of d)")
    case None
    then show ?thesis
      by (simp add: StorageService_updateDebt_def readData_stores [OF assms])
  next
    case (Some k)
    then have "k < length (debts_of d)"
      using findIndex_Some by blast
    then show ?thesis
      using Some assms(1)
      by (simp add: StorageService_updateDebt_def readData_stores [OF assms] Date_now_def
          Let_def writeData_with_debts [OF _ j v] validate_each_update [OF ve]
          persisted_list [OF je] persisted_updated_entry map_update split: sum.splits)
  qed
qed

lemma StorageService_deleteDebt_idle:
  assumes "idle s" and "stores s d"
  shows "StorageService_deleteDebt i s =
     (case findIndex (has_id i) (debts_of d) of
        None \<Rightarrow> (Inl (FailedToDelete (DebtNotFound i)), s)
      | Some k \<Rightarrow>
          (Inr (),
           s\<lparr>storageFile := Some (Stringified
                 (stamp (clock s (reads s)) (with_debts (splice1 k (debts_of d)) d))),
             reads := Suc (reads s)\<rparr>))"
proof -
  note v = stores_valid [OF assms(2)] and j = stores_json [OF assms(2)]
  note ve = stores_valid_entries [OF assms(2)] and je = stores_json_entries [OF assms(2)]
  show ?thesis
    using assms(1)
    by (simp add: StorageService_deleteDebt_def readData_stores [OF assms] Let_def
        writeData_with_debts [OF _ j v] validate_each_splice [OF ve] persisted_splice [OF je]
        split: option.splits)
qed

lemma updateDebt_idle:
  assumes "idle s" and "stores s d"
  shows "updateDebt i u s =
     (case find (has_id i) (debts_of d) of
        None \<Rightarrow> (Inl (DebtNotFound i), s)
      | Some existing \<Rightarrow>
          (case validateDebtEntry (JObj (spread (own_props existing) (own_props u))) of
             Inl e \<Rightarrow> (Inl e, s)
           | Inr validationErrors \<Rightarrow>
               if validationErrors \<noteq> [] then (Inl (InvalidUpdate validationErrors), s)
               else StorageService_updateDebt i u s))"
  by (simp add: updateDebt_def getDebt_idle [OF assms] Let_def split: option.splits sum.splits)

lemma transitionStatus_idle:
  assumes "idle s" and "stores s d"
  shows "transitionStatus i newStatus s =
     (case find (has_id i) (debts_of d) of
        None \<Rightarrow> (Inl (DebtNotFound i), s)
      | Some debt \<Rightarrow>
          (case allowed_for (get_prop debt ''status'') of
             Inl e \<Rightarrow> (Inl e, s)
           | Inr allowed \<Rightarrow>
               if newStatus \<notin> set allowed
               then (Inl (InvalidStatusTransition (get_prop debt ''status'') newStatus), s)
               else StorageService_updateDebt i
                      (JObj [(''status'', JStr (status_value newStatus))]) s))"
  by (simp add: transitionStatus_def getDebt_idle [OF assms] Let_def
      split: option.splits sum.splits)

text \<open>After a write at rest the service is at rest again, over the document written.\<close>

lemma written_state:
  assumes "idle s" and "is_json d" and "validateDataStructure d = Inr ()"
    and "list_all is_json ds" and "validate_each ds = Inr ()"
  shows "idle (s\<lparr>storageFile := Some (Stringified (stamp t (with_debts ds d))), reads := n\<rparr>)"
    and "stores (s\<lparr>storageFile := Some (Stringified (stamp t (with_debts ds d))), reads := n\<rparr>)
           (stamp t (with_debts ds d))"
  using assms
  by (simp_all add: stores_def validateDataStructure_stamp validateDataStructure_with_debts
      is_json_stamp is_json_with_debts)

section \<open>Entries under an update and the status state machine\<close>

lemma check_required_object:
  "check_required (JObj l) fs = Inr () \<longleftrightarrow> set fs \<subseteq> fst ` set l"
  by (induction fs) (auto split: sum.splits bool.splits)

lemma check_required_not_object:
  "check_required e (f # fs) = Inr () \<Longrightarrow> \<exists>l. e = JObj l"
  by (cases e) (auto split: sum.splits bool.splits)

lemma valid_entry_object:
  assumes "validateDebtStructure e = Inr ()"
  shows "\<exists>l. e = JObj l"
proof -
  from assms have "check_required e requiredFields = Inr ()"
    by (cases "check_required e requiredFields") (simp_all add: validateDebtStructure_def)
  then show ?thesis
    unfolding requiredFields_def by (rule check_required_not_object)
qed

lemma validateDebtStructure_object:
  "validateDebtStructure (JObj l) = Inr () \<longleftrightarrow>
     set requiredFields \<subseteq> fst ` set l \<and>
     \<not> not_nonempty_string (map_of l ''id'') \<and>
     \<not> not_nonempty_string (map_of l ''title'') \<and>
     \<not> not_nonempty_string (map_of l ''filePath'') \<and>
     \<not> not_positive_number (map_of l ''lineNumber'')"
proof (cases "check_required (JObj l) requiredFields")
  case (Inl e)
  moreover from Inl have "\<not> set requiredFields \<subseteq> fst ` set l"
    using check_required_object [of l requiredFields] by auto
  ultimately show ?thesis
    by (simp add: validateDebtStructure_def)
next
  case (Inr u)
  then have "set requiredFields \<subseteq> fst ` set l"
    using check_required_object [of l requiredFields] by simp
  with Inr show ?thesis
    by (simp add: validateDebtStructure_def)
qed

lemma valid_entry_nth:
  "validate_each ds = Inr () \<Longrightarrow> k < length ds \<Longrightarrow> validateDebtStructure (ds ! k) = Inr ()"
  by (simp add: validate_each_all list_all_length)

lemma updated_entry_other:
  "k \<notin> fst ` set u \<Longrightarrow> k \<noteq> ''updatedAt'' \<Longrightarrow>
     get_prop (updated_entry (JObj l) (JObj u) t) k = map_of l k"
  by (simp add: updated_entry_def spread_single map_of_assign map_of_spread_other)

lemma updated_entry_updatedAt:
  "get_prop (updated_entry old u t) ''updatedAt'' = Some (JDate (Some t))"
  by (simp add: updated_entry_def spread_single map_of_assign)

lemma updated_entry_keys:
  "fst ` set (own_props (updated_entry (JObj l) u t)) =
     insert ''updatedAt'' (fst ` set l \<union> fst ` set (own_props u))"
  by (simp add: updated_entry_def spread_single keys_assign keys_spread)

lemma status_update_valid:
  assumes "validateDebtStructure (JObj l) = Inr ()"
  shows "validateDebtStructure (updated_entry (JObj l) (JObj [(''status'', v)]) t) = Inr ()"
proof -
  obtain l' where l': "updated_entry (JObj l) (JObj [(''status'', v)]) t = JObj l'"
    by (simp add: updated_entry_def)
  have keys: "fst ` set l' = insert ''updatedAt'' (insert ''status'' (fst ` set l))"
    using updated_entry_keys [of l "JObj [(''status'', v)]" t] l' by auto
  have same: "map_of l' k = map_of l k" if "k \<noteq> ''status''" "k \<noteq> ''updatedAt''" for k
    using updated_entry_other [of k "[(''status'', v)]" l t] that l' by simp
  have eqs: "map_of l' ''id'' = map_of l ''id''" "map_of l' ''title'' = map_of l ''title''"
    "map_of l' ''filePath'' = map_of l ''filePath''"
    "map_of l' ''lineNumber'' = map_of l ''lineNumber''"
    by (simp_all add: same)
  from assms have r: "set requiredFields \<subseteq> fst ` set l"
    and v: "\<not> not_nonempty_string (map_of l ''id'')"
      "\<not> not_nonempty_string (map_of l ''title'')"
      "\<not> not_nonempty_string (map_of l ''filePath'')"
      "\<not> not_positive_number (map_of l ''lineNumber'')"
    by (simp_all add: validateDebtStructure_object)
  have "set requiredFields \<subseteq> fst ` set l'"
    unfolding keys using r by blast
  with v show ?thesis
    unfolding l' validateDebtStructure_object eqs by simp
qed

lemma status_update_status:
  "get_prop (updated_entry (JObj l) (JObj [(''status'', v)]) t) ''status'' = Some v"
  by (simp add: updated_entry_def spread_def map_of_assign)

lemma allowed_for_status:
  "allowed_for (Some (JStr (status_value cur))) =
     Inr (case cur of
            OPEN \<Rightarrow> [IN_PROGRESS, REVIEW, RESOLVED, CLOSED]
          | IN_PROGRESS \<Rightarrow> [REVIEW, RESOLVED, OPEN]
          | REVIEW \<Rightarrow> [RESOLVED, IN_PROGRESS, OPEN]
          | RESOLVED \<Rightarrow> [CLOSED, OPEN]
          | CLOSED \<Rightarrow> [OPEN])"
  by (cases cur) (simp_all add: allowedStatusTransitions_def)


lemma allowed_for_row:
  "\<exists>allowed. allowed_for (Some (JStr (status_value cur))) = Inr allowed \<and>
     set allowed = whitelist_row cur"
  unfolding allowed_for_status by (cases cur) simp_all

lemma toJSON_status_update:
  assumes "list_all (\<lambda>kv. is_json (snd kv)) l"
  shows "toJSON (updated_entry (JObj l) (JObj [(''status'', JStr st)]) t) =
     JObj (assign ''updatedAt'' (JStr (toISOString t)) (assign ''status'' (JStr st) l))"
proof -
  let ?l' = "assign ''updatedAt'' (JDate (Some t)) (assign ''status'' (JStr st) l)"
  have "set ?l' \<subseteq> insert (''updatedAt'', JDate (Some t)) (insert (''status'', JStr st) (set l))"
    using set_assign_subset [of "''updatedAt''" "JDate (Some t)" "assign ''status'' (JStr st) l"]
      set_assign_subset [of "''status''" "JStr st" l]
    by auto
  moreover have "\<forall>kv\<in>set l. snd kv \<noteq> JUndefined"
    using assms by (auto simp: list_all_iff)
  ultimately have "\<forall>kv\<in>set ?l'. snd kv \<noteq> JUndefined"
    by auto
  then have "toJSON (JObj ?l') = JObj (map (map_prod id toJSON) ?l')"
    by (rule toJSON_object_defined)
  then show ?thesis
    by (simp add: updated_entry_def spread_def map_assign toJSON_props_pure [OF assms])
qed

lemma valid_entry_json:
  assumes "list_all is_json ds" and "k < length ds" and "ds ! k = JObj l"
  shows "list_all (\<lambda>kv. is_json (snd kv)) l"
proof -
  from assms(1,2) have "is_json (ds ! k)"
    by (simp add: list_all_length)
  then show ?thesis
    unfolding assms(3) by simp
qed

text \<open>
  C5. On a service at rest whose stored document holds an entry with identifier \<open>i\<close> and
  status \<open>cur\<close>: if \<open>newStatus\<close> is not in the row of \<open>cur\<close>, \<open>transitionStatus i newStatus\<close>
  fails with the invalid-transition error and the storage file is left as it was;
  otherwise it succeeds with an entry \<open>e'\<close>, and the stored entries are the old ones
  with the entry replaced in place by what is written for \<open>e'\<close>. The entry written has
  the new status, the time of the call as \<open>updatedAt\<close> (an ISO string; a \<open>Date\<close> in the
  entry returned) and every other property unchanged.
\<close>

theorem transitionStatus_whitelist:
  assumes "idle s" and "stores s d"
    and "find (has_id i) (debts_of d) = Some e"
    and "get_prop e ''status'' = Some (JStr (status_value cur))"
  shows "(newStatus \<notin> whitelist_row cur \<longrightarrow>
            fst (transitionStatus i newStatus s) =
              Inl (InvalidStatusTransition (Some (JStr (status_value cur))) newStatus) \<and>
            storageFile (snd (transitionStatus i newStatus s)) = storageFile s) \<and>
         (newStatus \<in> whitelist_row cur \<longrightarrow>
            (\<exists>e' k. fst (transitionStatus i newStatus s) = Inr e' \<and>
               k < length (debts_of d) \<and> debts_of d ! k = e \<and>
               stored_debts (snd (transitionStatus i newStatus s)) =
                 (debts_of d)[k := toJSON e'] \<and>
               get_prop (toJSON e') ''status'' = Some (JStr (status_value newStatus)) \<and>
               get_prop (toJSON e') ''updatedAt'' =
                 Some (JStr (toISOString (clock s (reads s)))) \<and>
               (\<forall>f. f \<noteq> ''status'' \<and> f \<noteq> ''updatedAt'' \<longrightarrow>
                    get_prop (toJSON e') f = get_prop e f) \<and>
               get_prop e' ''status'' = Some (JStr (status_value newStatus)) \<and>
               get_prop e' ''updatedAt'' = Some (JDate (Some (clock s (reads s)))) \<and>
               (\<forall>f. f \<noteq> ''status'' \<and> f \<noteq> ''updatedAt'' \<longrightarrow> get_prop e' f = get_prop e f)))"
proof -
  note v = stores_valid [OF assms(2)]
  obtain allowed where al: "allowed_for (Some (JStr (status_value cur))) = Inr allowed"
    and row: "set allowed = whitelist_row cur"
    using allowed_for_row [of cur] by blast
  have t: "transitionStatus i newStatus s =
     (if newStatus \<notin> whitelist_row cur
      then (Inl (InvalidStatusTransition (Some (JStr (status_value cur))) newStatus), s)
      else StorageService_updateDebt i (JObj [(''status'', JStr (status_value newStatus))]) s)"
    by (simp add: transitionStatus_idle [OF assms(1,2)] assms(3) al row assms(4)
        del: allowed_for.simps)
  show ?thesis
  proof (intro conjI impI)
    assume "newStatus \<notin> whitelist_row cur"
    then show "fst (transitionStatus i newStatus s) =
        Inl (InvalidStatusTransition (Some (JStr (status_value cur))) newStatus)"
      and "storageFile (snd (transitionStatus i newStatus s)) = storageFile s"
      by (simp_all add: t)
  next
    assume a: "newStatus \<in> whitelist_row cur"
    from assms(3) obtain k where k: "findIndex (has_id i) (debts_of d) = Some k"
      using findIndex_None [of "has_id i" "debts_of d"]
      by (cases "findIndex (has_id i) (debts_of d)") auto
    then have kl: "k < length (debts_of d)" and ke: "debts_of d ! k = e"
      using findIndex_Some [OF k] assms(3) by simp_all
    have ve: "validateDebtStructure e = Inr ()"
      using valid_entry_nth [OF stores_valid_entries [OF assms(2)] kl] ke by simp
    then obtain l where l: "e = JObj l"
      using valid_entry_object by blast
    have pl: "list_all (\<lambda>kv. is_json (snd kv)) l"
      using valid_entry_json [OF stores_json_entries [OF assms(2)] kl] ke l by simp
    let ?st = "status_value newStatus"
    let ?u = "JObj [(''status'', JStr ?st)]"
    let ?e' = "updated_entry e ?u (clock s (reads s))"
    have ve': "validateDebtStructure ?e' = Inr ()"
      using ve unfolding l by (rule status_update_valid)
    have r: "transitionStatus i newStatus s =
       (Inr ?e', s\<lparr>storageFile := Some (Stringified
                       (stamp (clock s (Suc (reads s)))
                          (with_debts ((debts_of d)[k := toJSON ?e']) d))),
                   reads := Suc (Suc (reads s))\<rparr>)"
      using a by (simp add: t StorageService_updateDebt_idle [OF assms(1,2)] k ke ve' Let_def)
    have w: "toJSON ?e' = JObj (assign ''updatedAt'' (JStr (toISOString (clock s (reads s))))
        (assign ''status'' (JStr ?st) l))"
      unfolding l by (rule toJSON_status_update [OF pl])
    have "get_prop (toJSON ?e') ''status'' = Some (JStr ?st)"
      by (simp add: w map_of_assign)
    moreover have "get_prop (toJSON ?e') ''updatedAt'' =
        Some (JStr (toISOString (clock s (reads s))))"
      by (simp add: w map_of_assign)
    moreover have "\<forall>f. f \<noteq> ''status'' \<and> f \<noteq> ''updatedAt'' \<longrightarrow>
        get_prop (toJSON ?e') f = get_prop e f"
      unfolding w by (simp add: l map_of_assign)
    moreover have "get_prop ?e' ''status'' = Some (JStr ?st)"
      unfolding l by (rule status_update_status)
    moreover have "get_prop ?e' ''updatedAt'' = Some (JDate (Some (clock s (reads s))))"
      by (rule updated_entry_updatedAt)
    moreover have "\<forall>f. f \<noteq> ''status'' \<and> f \<noteq> ''updatedAt'' \<longrightarrow> get_prop ?e' f = get_prop e f"
      unfolding l using updated_entry_other [of _ "[(''status'', JStr ?st)]" l]
      by simp
    moreover have "fst (transitionStatus i newStatus s) = Inr ?e'"
      and "stored_debts (snd (transitionStatus i newStatus s)) = (debts_of d)[k := toJSON ?e']"
      using v by (simp_all add: r)
    ultimately show "\<exists>e' k. fst (transitionStatus i newStatus s) = Inr e' \<and>
               k < length (debts_of d) \<and> debts_of d ! k = e \<and>
               stored_debts (snd (transitionStatus i newStatus s)) =
                 (debts_of d)[k := toJSON e'] \<and>
               get_prop (toJSON e') ''status'' = Some (JStr (status_value newStatus)) \<and>
               get_prop (toJSON e') ''updatedAt'' =
                 Some (JStr (toISOString (clock s (reads s)))) \<and>
               (\<forall>f. f \<noteq> ''status'' \<and> f \<noteq> ''updatedAt'' \<longrightarrow>
                    get_prop (toJSON e') f = get_prop e f) \<and>
               get_prop e' ''status'' = Some (JStr (status_value newStatus)) \<and>
               get_prop e' ''updatedAt'' = Some (JDate (Some (clock s (reads s)))) \<and>
               (\<forall>f. f \<noteq> ''status'' \<and> f \<noteq> ''updatedAt'' \<longrightarrow> get_prop e' f = get_prop e f)"
      using kl ke by blast
  qed
qed

theorem transitionStatus_whitelist_witness:
  "fst (transitionStatus ''debt-1'' REVIEW (example_state (Some (Stringified
      (example_document [example_entry ''debt-1'' ''Handle empty input'' ''closed''])))))
     = Inl (InvalidStatusTransition (Some (JStr ''closed'')) REVIEW) \<and>
   map (\<lambda>e. get_prop e ''status'') (stored_debts (snd (transitionStatus ''debt-1'' OPEN
     (example_state (Some (Stringified
      (example_document [example_entry ''debt-1'' ''Handle empty input'' ''closed'']))))))) =
   [Some (JStr ''open'')]"
proof -
  let ?e = "example_entry ''debt-1'' ''Handle empty input'' ''closed''"
  let ?d = "example_document [?e]"
  let ?s = "example_state (Some (Stringified ?d))"
  have h1: "idle ?s"
    by (simp add: idle_def example_state_def)
  have "validateDataStructure ?d = Inr ()" and "is_json ?d"
    by code_simp+
  then have h2: "stores ?s ?d"
    by (simp add: stores_def example_state_def)
  have ds: "debts_of ?d = [?e]"
    by (simp add: debts_of_def example_document_def)
  have h3: "find (has_id ''debt-1'') (debts_of ?d) = Some ?e"
    unfolding ds by (simp add: has_id_def example_entry_def)
  have h4: "get_prop ?e ''status'' = Some (JStr (status_value CLOSED))"
    by (simp add: example_entry_def)
  note th = transitionStatus_whitelist [OF h1 h2 h3 h4]
  have a: "fst (transitionStatus ''debt-1'' REVIEW ?s)
     = Inl (InvalidStatusTransition (Some (JStr ''closed'')) REVIEW)"
    using th [of REVIEW] by simp
  from th [of OPEN] obtain e' k where "k < length (debts_of ?d)"
    and "stored_debts (snd (transitionStatus ''debt-1'' OPEN ?s)) = (debts_of ?d)[k := toJSON e']"
    and "get_prop (toJSON e') ''status'' = Some (JStr (status_value OPEN))"
    by auto
  then have "map (\<lambda>e. get_prop e ''status'') (stored_debts (snd (transitionStatus ''debt-1'' OPEN ?s)))
     = [Some (JStr ''open'')]"
    unfolding ds by simp
  with a show ?thesis by simp
qed

section \<open>Status changes through updateDebt, corrupted files, blank descriptions\<close>

text \<open>
  C2. The stored entry \<open>debt-1\<close> has status \<open>closed\<close>, whose row of the transition table
  holds \<open>open\<close> only. \<open>updateDebt\<close> with the partial fields \<open>{ status: 'review' }\<close> succeeds
  and persists the status \<open>review\<close>, where \<open>transitionStatus\<close> to \<open>review\<close> fails with the
  invalid-transition error: \<open>updateDebt\<close> never consults the table.
\<close>

theorem updateDebt_bypasses_whitelist:
  "fst (updateDebt ''debt-1'' (JObj [(''status'', JStr ''review'')])
     (example_state (Some (Stringified
        (example_document [example_entry ''debt-1'' ''Handle empty input'' ''closed''])))))
   = Inr (JObj [(''id'', JStr ''debt-1''), (''title'', JStr ''Fix parser''),
           (''description'', JStr ''Handle empty input''),
           (''filePath'', JStr ''src/parser.ts''), (''lineNumber'', JNum 12),
           (''severity'', JStr ''medium''), (''category'', JStr ''code-quality''),
           (''status'', JStr ''review''), (''priority'', JStr ''normal''),
           (''tags'', JArr [JStr ''parser'']),
           (''createdAt'', JStr ''2024-01-01T00:00:00.000Z''),
           (''updatedAt'', JDate (Some 1700000000000))]) \<and>
   stored_debts (snd
     (updateDebt ''debt-1'' (JObj [(''status'', JStr ''review'')])
       (example_state (Some (Stringified
          (example_document [example_entry ''debt-1'' ''Handle empty input'' ''closed'']))))))
   = [JObj [(''id'', JStr ''debt-1''), (''title'', JStr ''Fix parser''),
           (''description'', JStr ''Handle empty input''),
           (''filePath'', JStr ''src/parser.ts''), (''lineNumber'', JNum 12),
           (''severity'', JStr ''medium''), (''category'', JStr ''code-quality''),
           (''status'', JStr ''review''), (''priority'', JStr ''normal''),
           (''tags'', JArr [JStr ''parser'']),
           (''createdAt'', JStr ''2024-01-01T00:00:00.000Z''),
           (''updatedAt'', JStr ''2023-11-14T22:13:20.000Z'')]] \<and>
   map (\<lambda>e. get_prop e ''status'') (stored_debts (snd
     (updateDebt ''debt-1'' (JObj [(''status'', JStr ''review'')])
       (example_state (Some (Stringified
          (example_document [example_entry ''debt-1'' ''Handle empty input'' ''closed''])))))))
   = [Some (JStr ''review'')] \<and>
   fst (transitionStatus ''debt-1'' REVIEW
     (example_state (Some (Stringified
        (example_document [example_entry ''debt-1'' ''Handle empty input'' ''closed''])))))
   = Inl (InvalidStatusTransition (Some (JStr ''closed'')) REVIEW)"
proof -
  let ?e = "example_entry ''debt-1'' ''Handle empty input'' ''closed''"
  let ?d = "example_document [?e]"
  let ?s = "example_state (Some (Stringified ?d))"
  let ?u = "[(''status'', JStr ''review'')]"
  let ?e' = "updated_entry ?e (JObj ?u) 1700000000000"
  have h1: "idle ?s"
    by (simp add: idle_def example_state_def)
  have v: "validateDataStructure ?d = Inr ()" and j: "is_json ?d"
    by code_simp+
  then have h2: "stores ?s ?d"
    by (simp add: stores_def example_state_def)
  have ds: "debts_of ?d = [?e]"
    by (simp add: debts_of_def example_document_def)
  have h3: "findIndex (has_id ''debt-1'') (debts_of ?d) = Some 0"
    unfolding ds by code_simp
  have f: "find (has_id ''debt-1'') (debts_of ?d) = Some ?e"
    using findIndex_Some [OF h3] unfolding ds by simp
  have n: "debts_of ?d ! 0 = ?e"
    unfolding ds by simp
  have m: "validateDebtEntry (JObj (spread (own_props ?e) ?u)) = Inr []"
    by code_simp
  have c: "clock ?s (reads ?s) = 1700000000000"
    by (simp add: example_state_def)
  have ve: "validateDebtStructure ?e' = Inr ()"
    by code_simp
  have ev: "?e' = JObj [(''id'', JStr ''debt-1''), (''title'', JStr ''Fix parser''),
           (''description'', JStr ''Handle empty input''),
           (''filePath'', JStr ''src/parser.ts''), (''lineNumber'', JNum 12),
           (''severity'', JStr ''medium''), (''category'', JStr ''code-quality''),
           (''status'', JStr ''review''), (''priority'', JStr ''normal''),
           (''tags'', JArr [JStr ''parser'']),
           (''createdAt'', JStr ''2024-01-01T00:00:00.000Z''),
           (''updatedAt'', JDate (Some 1700000000000))]"
    by code_simp
  have ew: "toJSON ?e' = JObj [(''id'', JStr ''debt-1''), (''title'', JStr ''Fix parser''),
           (''description'', JStr ''Handle empty input''),
           (''filePath'', JStr ''src/parser.ts''), (''lineNumber'', JNum 12),
           (''severity'', JStr ''medium''), (''category'', JStr ''code-quality''),
           (''status'', JStr ''review''), (''priority'', JStr ''normal''),
           (''tags'', JArr [JStr ''parser'']),
           (''createdAt'', JStr ''2024-01-01T00:00:00.000Z''),
           (''updatedAt'', JStr ''2023-11-14T22:13:20.000Z'')]"
    by code_simp
  have u: "updateDebt ''debt-1'' (JObj ?u) ?s =
     (Inr ?e', ?s\<lparr>storageFile := Some (Stringified
                       (stamp (clock ?s (Suc (reads ?s)))
                          (with_debts ((debts_of ?d)[0 := toJSON ?e']) ?d))),
                   reads := Suc (Suc (reads ?s))\<rparr>)"
    using ve
    by (simp add: updateDebt_idle [OF h1 h2] f m StorageService_updateDebt_idle [OF h1 h2] h3 c
        Let_def n)
  have a: "fst (updateDebt ''debt-1'' (JObj ?u) ?s) = Inr ?e'"
    by (simp add: u)
  have b: "stored_debts (snd (updateDebt ''debt-1'' (JObj ?u) ?s)) = [toJSON ?e']"
    unfolding u using v by (simp add: ds)
  have b': "map (\<lambda>e. get_prop e ''status'') (stored_debts (snd (updateDebt ''debt-1'' (JObj ?u) ?s)))
     = [Some (JStr ''review'')]"
    unfolding b ew by simp
  have al: "allowed_for (get_prop ?e ''status'') = Inr [OPEN]"
    by code_simp
  have g: "get_prop ?e ''status'' = Some (JStr ''closed'')"
    by (simp add: example_entry_def)
  have t: "fst (transitionStatus ''debt-1'' REVIEW ?s)
     = Inl (InvalidStatusTransition (Some (JStr ''closed'')) REVIEW)"
    by (simp add: transitionStatus_idle [OF h1 h2] f al) (simp add: g)
  note a' = a [unfolded ev] and b'' = b [unfolded ew]
  from a' b'' b' t show ?thesis
    by (intro conjI)
qed

lemma readData_keeps_backups: "backups (snd (readData s)) = backups s"
  by (simp add: readData_def acquireLock_def releaseLock_def Date_now_def Let_def
      split: option.splits prod.splits)

text \<open>
  C3. The storage file holds the text \<open>invalid json content\<close>, which does not parse.
  \<open>readData\<close> fails with the syntax error behind \<open>Failed to read storage data:\<close> and makes
  no backup: no file \<open>debts.json.backup.<time>\<close> exists afterwards. The backup and the
  error \<open>Storage file is corrupted and has been backed up\<close> come from
  \<open>validateStorageFile\<close>, which only \<open>initialize\<close> calls.
\<close>

theorem read_corrupted_file_no_backup:
  "fst (readData (example_state (Some (Unparsable ''invalid json content''))))
     = Inl (FailedToRead SyntaxError) \<and>
   backups (snd (readData (example_state (Some (Unparsable ''invalid json content''))))) = [] \<and>
   fst (validateStorageFile (example_state (Some (Unparsable ''invalid json content''))))
     = Inl CorruptedAndBackedUp \<and>
   backups (snd (validateStorageFile (example_state (Some (Unparsable ''invalid json content'')))))
     = [(1700000000000, Unparsable ''invalid json content'')]"
  by code_simp

text \<open>
  C8. A document whose only entry has the empty string as \<open>description\<close> passes the
  structural validation, is written by \<open>writeData\<close> and is returned by \<open>readData\<close>:
  \<open>validateDebtStructure\<close> tests \<open>description\<close> for presence only. So does a document
  whose entry has a number as \<open>description\<close> and the line number 3/2.
\<close>

theorem blank_description_accepted:
  "validateDataStructure (example_document [example_entry ''debt-1'' [] ''open'']) = Inr () \<and>
   fst (writeData (example_document [example_entry ''debt-1'' [] ''open''])
          (example_state None)) = Inr () \<and>
   fst (readData (example_state (Some (Stringified
          (example_document [example_entry ''debt-1'' [] ''open''])))))
     = Inr (example_document [example_entry ''debt-1'' [] ''open'']) \<and>
   map (\<lambda>e. get_prop e ''description'')
     (debts_of (example_document [example_entry ''debt-1'' [] ''open''])) = [Some (JStr [])] \<and>
   validateDataStructure (example_document
     [set_prop ''lineNumber'' (JNum (3 / 2))
        (set_prop ''description'' (JNum 5) (example_entry ''debt-1'' [] ''open''))]) = Inr ()"
proof -
  let ?d = "example_document [example_entry ''debt-1'' [] ''open'']"
  have v: "validateDataStructure ?d = Inr ()"
    by code_simp
  have i: "idle (example_state f)" for f
    by (simp add: idle_def example_state_def)
  have w: "fst (writeData ?d (example_state None)) = Inr ()"
    by (simp add: writeData_idle [OF i] v)
  have r: "fst (readData (example_state (Some (Stringified ?d)))) = Inr ?d"
    by (simp add: readData_idle [OF i] v) (simp add: example_state_def v)
  have g: "map (\<lambda>e. get_prop e ''description'') (debts_of ?d) = [Some (JStr [])]"
    by (simp add: debts_of_def example_document_def example_entry_def)
  have n: "validateDataStructure (example_document
     [set_prop ''lineNumber'' (JNum (3 / 2))
        (set_prop ''description'' (JNum 5) (example_entry ''debt-1'' [] ''open''))]) = Inr ()"
    by code_simp
  from v w r g n show ?thesis
    by (intro conjI)
qed

section \<open>What an update leaves in place\<close>








section \<open>Writing a document and reading it back\<close>






section \<open>The lock\<close>

lemma readData_unlocked: "\<not> isLocked (snd (readData s))"
  by (simp add: readData_def acquireLock_def releaseLock_def Date_now_def Let_def
      split: option.splits prod.splits)

lemma writeData_unlocked: "\<not> isLocked (snd (writeData d s))"
  by (simp add: writeData_def acquireLock_def releaseLock_def Date_now_def Let_def
      split: option.splits prod.splits sum.splits)

text \<open>
  C9. \<open>isLocked\<close> is the instance's own flag: \<open>acquireLock\<close> is private and entered only at
  the start of \<open>readData\<close> and \<open>writeData\<close>, both of which end by releasing, so the flag
  is false whenever \<open>acquireLock\<close> is entered. For such an instance the acquisition
  fails exactly when a lock file exists whose age is below 30000 milliseconds, and
  then with the error \<open>Storage is locked by another process\<close>; when a lock file
  exists whose age is 30000 milliseconds or more, the acquisition succeeds and the
  lock file is the instance's own, written at the time of the acquisition.
\<close>

theorem acquireLock_staleness:
  assumes "\<not> isLocked s"
  shows "((\<exists>e. fst (acquireLock s) = Inl e) \<longleftrightarrow>
            (\<exists>mtime. lockFile s = Some mtime \<and> clock s (reads s) - mtime < 30000)) \<and>
         ((\<exists>e. fst (acquireLock s) = Inl e) \<longrightarrow>
            fst (acquireLock s) = Inl (FailedToAcquireLock LockedByAnotherProcess) \<and>
            lockFile (snd (acquireLock s)) = lockFile s \<and> \<not> isLocked (snd (acquireLock s))) \<and>
         (\<forall>mtime. lockFile s = Some mtime \<and> 30000 \<le> clock s (reads s) - mtime \<longrightarrow>
            fst (acquireLock s) = Inr () \<and> isLocked (snd (acquireLock s)) \<and>
            lockFile (snd (acquireLock s)) = Some (clock s (Suc (reads s))))"
  using assms
  by (cases "lockFile s") (auto simp: acquireLock_def Date_now_def Let_def)

theorem acquireLock_staleness_witness:
  "fst (acquireLock ((example_state None)\<lparr>lockFile := Some 1699999970001\<rparr>))
     = Inl (FailedToAcquireLock LockedByAnotherProcess) \<and>
   fst (acquireLock ((example_state None)\<lparr>lockFile := Some 1699999970000\<rparr>)) = Inr () \<and>
   lockFile (snd (acquireLock ((example_state None)\<lparr>lockFile := Some 1699999970000\<rparr>)))
     = Some 1700000001000"
proof -
  let ?fresh = "(example_state None)\<lparr>lockFile := Some 1699999970001\<rparr>"
  let ?stale = "(example_state None)\<lparr>lockFile := Some 1699999970000\<rparr>"
  have f: "\<not> isLocked ?fresh" and s: "\<not> isLocked ?stale"
    by (simp_all add: example_state_def)
  have "\<exists>mtime. lockFile ?fresh = Some mtime \<and> clock ?fresh (reads ?fresh) - mtime < 30000"
    by (simp add: example_state_def)
  with acquireLock_staleness [OF f]
  have a: "fst (acquireLock ?fresh) = Inl (FailedToAcquireLock LockedByAnotherProcess)"
    by blast
  have "lockFile ?stale = Some 1699999970000 \<and>
        30000 \<le> clock ?stale (reads ?stale) - 1699999970000"
    by (simp add: example_state_def)
  with acquireLock_staleness [OF s]
  have "fst (acquireLock ?stale) = Inr () \<and>
        lockFile (snd (acquireLock ?stale)) = Some (clock ?stale (Suc (reads ?stale)))"
    by blast
  then have b: "fst (acquireLock ?stale) = Inr ()"
    and c: "lockFile (snd (acquireLock ?stale)) = Some 1700000001000"
    by (simp_all add: example_state_def)
  from a b c show ?thesis
    by (intro conjI)
qed

section \<open>The scanner on an ordinary comment line\<close>

text \<open>
  C1. With the default markers, scanning the one-line text \<open>// TODO: fix null check\<close>
  gives no match at all: the pattern asks for a backspace character right after the
  marker, so the line does not yield the match with marker \<open>TODO\<close> and description
  \<open>fix null check\<close>.
\<close>

theorem scan_todo_line_no_match:
  "extractScanResults getRelativePath path ''// TODO: fix null check''
     (config\<lparr>debtMarkers := DEBT_MARKERS\<rparr>) = []"
  by (simp add: extractScanResults_def DEBT_MARKERS_def line_match_def match_at_def
      match_after_marker_def same_letter_def to_upper_def)

text \<open>The same line with U+0008 after the marker is matched, as the pattern is written.\<close>

lemma scan_todo_line_with_backspace:
  "map (\<lambda>r. (lineNumber r, marker r, get_prop (suggestedDebt r) ''description'',
             get_prop (suggestedDebt r) ''title''))
     (extractScanResults getRelativePath path (''// todo'' @ [CHR 0x08] @ '': fix null check'')
        (config\<lparr>debtMarkers := DEBT_MARKERS\<rparr>))
   = [(1, ''TODO'', Some (JStr ''fix null check''), Some (JStr ''TODO: fix null check''))]"
  by (simp add: extractScanResults_def DEBT_MARKERS_def line_match_def match_at_def
      match_after_marker_def match_description_def same_letter_def to_upper_def
      toUpperCase_def is_line_terminator_def Let_def buildSuggestedDebt_def trim_def
      is_space_def)

text \<open>No line without the character U+0008 is matched, whatever the markers.\<close>

lemma match_marker_rest: "match_marker m xs = Some (t, r) \<Longrightarrow> set r \<subseteq> set xs"
proof (induction m xs arbitrary: t r rule: match_marker.induct)
  case (3 c cs x xs)
  then show ?case
    by (auto split: if_splits option.splits)
qed auto

lemma match_after_marker_backspace: "match_after_marker xs = Some g \<Longrightarrow> CHR 0x08 \<in> set xs"
  by (auto simp: match_after_marker_def split: list.splits if_splits)

lemma match_alternation_backspace:
  "match_alternation ms xs = Some r \<Longrightarrow> CHR 0x08 \<in> set xs"
proof (induction ms)
  case (Cons m ms)
  then show ?case
    using match_marker_rest match_after_marker_backspace
    by (fastforce split: option.splits prod.splits)
qed simp

lemma regex_search_backspace:
  "regex_search atStart ms xs = Some r \<Longrightarrow> CHR 0x08 \<in> set xs"
proof (induction xs arbitrary: atStart)
  case Nil
  then show ?case
    by (auto simp: match_at_def split: if_splits option.splits dest: match_alternation_backspace)
next
  case (Cons c cs)
  then show ?case
    by (auto simp: match_at_def split: if_splits option.splits dest: match_alternation_backspace)
qed

lemma line_match_needs_backspace:
  "CHR 0x08 \<notin> set line \<Longrightarrow> line_match ms line = None"
  using regex_search_backspace [of True ms line]
  by (cases "line_match ms line") (auto simp: line_match_def)

end
